theory Spec2Isabelle
  imports Main "HOL-Library.AList"
begin

section \<open>Errors\<close>

text \<open>
  Every exception the modelled code can raise is a value of this type; a function that
  can raise returns \<open>error + 'a\<close>, with \<open>Inl\<close> for the exception.
  \<^item> \<open>ValueError\<close>: \<^verbatim>\<open>list.remove(x)\<close> with \<open>x\<close> not in the list;
  \<^item> \<open>KeyError\<close>: a dict read at a key it does not hold;
  \<^item> \<open>TransportError\<close>: \<^verbatim>\<open>websocket.accept()\<close> or \<^verbatim>\<open>send_json\<close> on a broken socket;
  \<^item> \<open>MultipleResultsFound\<close>: \<^verbatim>\<open>scalar_one_or_none()\<close> on more than one row;
  \<^item> \<open>IntegrityError\<close>: a commit that violates a constraint of the schema;
  \<^item> \<open>HTTPException\<close>: raised by a route, with its status code.
\<close>

datatype error =
    ValueError
  | KeyError
  | TransportError
  | MultipleResultsFound
  | IntegrityError
  | HTTPException nat

section \<open>The connection manager of \<^verbatim>\<open>main.py\<close>\<close>

text \<open>
  A WebSocket object is identified by a handle. \<^verbatim>\<open>active_connections\<close> is a Python dict
  from user id to the list of that user's sockets; it is modelled as an association list
  in insertion order, read with \<open>map_of\<close> and written with \<open>AList.update\<close> and
  \<open>AList.delete\<close>. The sockets whose transport is broken (on which \<^verbatim>\<open>accept\<close> and
  \<^verbatim>\<open>send_json\<close> raise) are a parameter of each operation.
\<close>

type_synonym conn = nat
type_synonym user_id = int
type_synonym registry = "(user_id \<times> conn list) list"

text \<open>What a socket received: the frames put on the wire, oldest first.\<close>

type_synonym 'e wire = "(conn \<times> 'e) list"

definition connect :: "conn list \<Rightarrow> registry \<Rightarrow> conn \<Rightarrow> user_id \<Rightarrow> error + registry" where
  "connect broken r websocket uid =
     (if websocket \<in> set broken then Inl TransportError
      else
        let r1 = (if map_of r uid = None then AList.update uid [] r else r)
        in (case map_of r1 uid of
              None \<Rightarrow> Inl KeyError
            | Some cs \<Rightarrow> Inr (AList.update uid (cs @ [websocket]) r1)))"

definition disconnect :: "registry \<Rightarrow> conn \<Rightarrow> user_id \<Rightarrow> error + registry" where
  "disconnect r websocket uid =
     (case map_of r uid of
        None \<Rightarrow> Inr r
      | Some cs \<Rightarrow>
          if websocket \<notin> set cs then Inl ValueError
          else
            let cs' = remove1 websocket cs
            in if cs' = [] then Inr (AList.delete uid r)
               else Inr (AList.update uid cs' r))"

definition send_json :: "conn list \<Rightarrow> conn \<Rightarrow> 'e \<Rightarrow> 'e wire \<Rightarrow> error + 'e wire" where
  "send_json broken c e w =
     (if c \<in> set broken then Inl TransportError else Inr (w @ [(c, e)]))"

text \<open>
  The loop of \<^verbatim>\<open>send_to_user\<close>: each send is inside \<^verbatim>\<open>try: ... except: pass\<close>, so a send
  that raises leaves the wire as it was and the loop goes on.
\<close>

fun send_each :: "conn list \<Rightarrow> 'e \<Rightarrow> conn list \<Rightarrow> 'e wire \<Rightarrow> 'e wire" where
  "send_each broken e [] w = w"
| "send_each broken e (c # cs) w =
     (case send_json broken c e w of
        Inl _ \<Rightarrow> send_each broken e cs w
      | Inr w' \<Rightarrow> send_each broken e cs w')"

definition send_to_user ::
  "conn list \<Rightarrow> user_id \<Rightarrow> 'e \<Rightarrow> registry \<times> 'e wire \<Rightarrow> error + registry \<times> 'e wire" where
  "send_to_user broken uid e s =
     (case s of (r, w) \<Rightarrow>
        (case map_of r uid of
           None \<Rightarrow> Inr (r, w)
         | Some cs \<Rightarrow> Inr (r, send_each broken e cs w)))"

text \<open>The sockets registered for a user: the dict entry, or none when the key is absent.\<close>

definition connections_of :: "registry \<Rightarrow> user_id \<Rightarrow> conn list" where
  "connections_of r uid = (case map_of r uid of None \<Rightarrow> [] | Some cs \<Rightarrow> cs)"

text \<open>
  Each socket is registered once, for the one user its token authenticated:
  \<^verbatim>\<open>websocket_endpoint\<close> calls \<^verbatim>\<open>connect\<close> once per socket.
\<close>

definition one_owner :: "registry \<Rightarrow> bool" where
  "one_owner r = distinct (concat (map snd r))"

text \<open>The frames one event puts on the wire for a list of sockets: one per working socket.\<close>

definition frames :: "conn list \<Rightarrow> 'e \<Rightarrow> conn list \<Rightarrow> 'e wire" where
  "frames broken e cs = map (\<lambda>c. (c, e)) (filter (\<lambda>c. c \<notin> set broken) cs)"

text \<open>
  A history of the manager: the calls \<^verbatim>\<open>connect\<close> and \<^verbatim>\<open>disconnect\<close> made on it, each
  one returning before the next; the run stops at the first call that raises.
\<close>

datatype manager_call = Connect conn user_id | Disconnect conn user_id

fun run_calls :: "conn list \<Rightarrow> registry \<Rightarrow> manager_call list \<Rightarrow> error + registry" where
  "run_calls broken r [] = Inr r"
| "run_calls broken r (Connect ws uid # calls) =
     (case connect broken r ws uid of
        Inl e \<Rightarrow> Inl e
      | Inr r' \<Rightarrow> run_calls broken r' calls)"
| "run_calls broken r (Disconnect ws uid # calls) =
     (case disconnect r ws uid of
        Inl e \<Rightarrow> Inl e
      | Inr r' \<Rightarrow> run_calls broken r' calls)"

section \<open>The tables of \<^verbatim>\<open>models.py\<close> and the routes of \<^verbatim>\<open>main.py\<close>\<close>

text \<open>
  A table is the list of its rows. Only the columns the modelled code reads or writes are
  kept. \<^verbatim>\<open>datetime.utcnow()\<close> is the parameter \<open>now\<close> of each operation.
\<close>

record user_row =
  u_id :: int
  u_username :: string

record chat_row =
  c_id :: int
  c_name :: string
  c_created_at :: int

record chat_participant_row =
  cp_id :: int
  cp_chat_id :: int
  cp_user_id :: int

record legacy_db =
  users :: "user_row list"
  chats :: "chat_row list"
  chat_participants :: "chat_participant_row list"

text \<open>An autoincrement primary key: one more than the largest key in the table.\<close>

definition next_id :: "int list \<Rightarrow> int" where
  "next_id ids = fold max ids 0 + 1"

text \<open>\<^verbatim>\<open>Query.first()\<close>: the first row of the result, or \<^verbatim>\<open>None\<close>.\<close>

definition first :: "'a list \<Rightarrow> 'a option" where
  "first rows = (case rows of [] \<Rightarrow> None | x # _ \<Rightarrow> Some x)"

text \<open>
  The loop of \<^verbatim>\<open>send_to_chat\<close> over the participant rows; \<^verbatim>\<open>exclude_user_id\<close> defaults to
  \<^verbatim>\<open>None\<close>, which no user id equals.
\<close>

fun send_to_participants ::
  "conn list \<Rightarrow> 'e \<Rightarrow> user_id option \<Rightarrow> chat_participant_row list \<Rightarrow>
     registry \<times> 'e wire \<Rightarrow> error + registry \<times> 'e wire" where
  "send_to_participants broken e exclude_user_id [] s = Inr s"
| "send_to_participants broken e exclude_user_id (participant # ps) s =
     (if Some (cp_user_id participant) \<noteq> exclude_user_id then
        (case send_to_user broken (cp_user_id participant) e s of
           Inl err \<Rightarrow> Inl err
         | Inr s' \<Rightarrow> send_to_participants broken e exclude_user_id ps s')
      else send_to_participants broken e exclude_user_id ps s)"

definition send_to_chat ::
  "conn list \<Rightarrow> int \<Rightarrow> 'e \<Rightarrow> legacy_db \<Rightarrow> user_id option \<Rightarrow>
     registry \<times> 'e wire \<Rightarrow> error + registry \<times> 'e wire" where
  "send_to_chat broken chat_id e db exclude_user_id s =
     (let participants = filter (\<lambda>p. cp_chat_id p = chat_id) (chat_participants db)
      in send_to_participants broken e exclude_user_id participants s)"

text \<open>
  \<^verbatim>\<open>create_or_get_direct_chat\<close>. The query joins each chat with its participant rows, keeps
  the rows whose user is the caller or the contact, groups by chat and keeps the chats
  with exactly two such rows; \<^verbatim>\<open>first()\<close> takes one of them.
\<close>

definition direct_chat_query :: "legacy_db \<Rightarrow> int \<Rightarrow> int \<Rightarrow> chat_row list" where
  "direct_chat_query db current_id contact_id =
     filter (\<lambda>c. length (filter (\<lambda>p. cp_chat_id p = c_id c
                                     \<and> cp_user_id p \<in> set [current_id, contact_id])
                             (chat_participants db)) = 2)
            (chats db)"

fun add_participants :: "int \<Rightarrow> int list \<Rightarrow> chat_participant_row list \<Rightarrow> chat_participant_row list" where
  "add_participants chat_id [] ps = ps"
| "add_participants chat_id (uid # uids) ps =
     add_participants chat_id uids
       (ps @ [\<lparr>cp_id = next_id (map cp_id ps), cp_chat_id = chat_id, cp_user_id = uid\<rparr>])"

definition create_or_get_direct_chat ::
  "legacy_db \<Rightarrow> int \<Rightarrow> user_row \<Rightarrow> int \<Rightarrow> error + chat_row \<times> legacy_db" where
  "create_or_get_direct_chat db contact_id current_user now =
     (case first (direct_chat_query db (u_id current_user) contact_id) of
        Some existing_chat \<Rightarrow> Inr (existing_chat, db)
      | None \<Rightarrow>
          (case first (filter (\<lambda>u. u_id u = contact_id) (users db)) of
             None \<Rightarrow> Inl (HTTPException 404)
           | Some contact_user \<Rightarrow>
               let chat_name = ''Chat: '' @ u_username current_user @ '' & ''
                                 @ u_username contact_user;
                   db_chat = \<lparr>c_id = next_id (map c_id (chats db)), c_name = chat_name,
                              c_created_at = now\<rparr>;
                   db1 = db\<lparr>chats := chats db @ [db_chat]\<rparr>;
                   db2 = db1\<lparr>chat_participants :=
                           add_participants (c_id db_chat) [u_id current_user, contact_id]
                             (chat_participants db1)\<rparr>
               in Inr (db_chat, db2)))"

text \<open>The participant set of a chat, as the claim about direct chats reads it.\<close>

definition chat_participant_ids :: "legacy_db \<Rightarrow> int \<Rightarrow> int set" where
  "chat_participant_ids db chat_id =
     set (map cp_user_id (filter (\<lambda>p. cp_chat_id p = chat_id) (chat_participants db)))"

section \<open>The store of the services: the schema of \<^verbatim>\<open>001_initial_schema.py\<close>\<close>

text \<open>
  The services in \<^verbatim>\<open>services/chat.py\<close> and \<^verbatim>\<open>services/message.py\<close> work on the tables the
  migration creates. The columns \<^verbatim>\<open>type\<close> and \<^verbatim>\<open>status\<close> are strings that a check
  constraint of the schema restricts to the values below. The surrogate key of a
  status, version or reaction row is assigned by the database and read by none of the
  modelled operations; it is left out.
\<close>

datatype conversation_type = Direct | Group

datatype delivery_status = Sent | Delivered | Read

record conversation_row =
  cv_id :: int
  cv_type :: conversation_type
  cv_name :: "string option"

record conversation_participant_row =
  cvp_conversation_id :: int
  cvp_user_id :: int

record message_row =
  msg_id :: int
  msg_conversation_id :: int
  msg_sender_id :: int
  msg_content :: string
  msg_created_at :: int
  msg_updated_at :: "int option"
  msg_deleted_at :: "int option"
  msg_edited_at :: "int option"
  msg_version :: int

record status_row =
  ms_message_id :: int
  ms_user_id :: int
  ms_status :: delivery_status
  ms_created_at :: int

record version_row =
  mv_message_id :: int
  mv_version :: int
  mv_content :: string
  mv_created_at :: int

record reaction_row =
  mr_message_id :: int
  mr_user_id :: int
  mr_emoji :: string
  mr_created_at :: int

record store =
  store_users :: "int list"
  conversations :: "conversation_row list"
  conversation_participants :: "conversation_participant_row list"
  messages :: "message_row list"
  message_status :: "status_row list"
  message_versions :: "version_row list"
  message_reactions :: "reaction_row list"

text \<open>\<^verbatim>\<open>Result.scalar_one_or_none()\<close>: raises when the query returns more than one row.\<close>

definition scalar_one_or_none :: "'a list \<Rightarrow> error + 'a option" where
  "scalar_one_or_none rows =
     (case rows of
        [] \<Rightarrow> Inr None
      | [x] \<Rightarrow> Inr (Some x)
      | _ \<Rightarrow> Inl MultipleResultsFound)"

subsection \<open>Constraints of the schema, checked at commit\<close>

text \<open>
  The foreign keys \<^verbatim>\<open>message_id \<rightarrow> messages.id\<close> and \<^verbatim>\<open>user_id \<rightarrow> users.id\<close> and the unique
  constraints \<^verbatim>\<open>unique_message_user_status\<close>, \<^verbatim>\<open>unique_message_version\<close> and
  \<^verbatim>\<open>unique_message_user_reaction\<close>. A commit whose INSERT violates one of them raises
  \<^verbatim>\<open>IntegrityError\<close> and writes nothing.
\<close>

definition message_exists :: "store \<Rightarrow> int \<Rightarrow> bool" where
  "message_exists db mid = (mid \<in> set (map msg_id (messages db)))"

definition user_exists :: "store \<Rightarrow> int \<Rightarrow> bool" where
  "user_exists db uid = (uid \<in> set (store_users db))"

definition insert_status :: "store \<Rightarrow> status_row \<Rightarrow> error + store" where
  "insert_status db row =
     (if message_exists db (ms_message_id row) \<and> user_exists db (ms_user_id row)
         \<and> (ms_message_id row, ms_user_id row)
              \<notin> set (map (\<lambda>s. (ms_message_id s, ms_user_id s)) (message_status db))
      then Inr (db\<lparr>message_status := message_status db @ [row]\<rparr>)
      else Inl IntegrityError)"

definition insert_version :: "store \<Rightarrow> version_row \<Rightarrow> error + store" where
  "insert_version db row =
     (if message_exists db (mv_message_id row)
         \<and> (mv_message_id row, mv_version row)
              \<notin> set (map (\<lambda>v. (mv_message_id v, mv_version v)) (message_versions db))
      then Inr (db\<lparr>message_versions := message_versions db @ [row]\<rparr>)
      else Inl IntegrityError)"

definition insert_reaction :: "store \<Rightarrow> reaction_row \<Rightarrow> error + store" where
  "insert_reaction db row =
     (if message_exists db (mr_message_id row) \<and> user_exists db (mr_user_id row)
         \<and> (mr_message_id row, mr_user_id row, mr_emoji row)
              \<notin> set (map (\<lambda>r. (mr_message_id r, mr_user_id r, mr_emoji r))
                          (message_reactions db))
      then Inr (db\<lparr>message_reactions := message_reactions db @ [row]\<rparr>)
      else Inl IntegrityError)"

text \<open>The primary key of \<^verbatim>\<open>messages\<close> and the unique constraint of \<^verbatim>\<open>message_status\<close>,
  as properties of a store.\<close>

definition messages_pkey :: "store \<Rightarrow> bool" where
  "messages_pkey db = distinct (map msg_id (messages db))"

definition unique_message_user_status :: "store \<Rightarrow> bool" where
  "unique_message_user_status db =
     distinct (map (\<lambda>s. (ms_message_id s, ms_user_id s)) (message_status db))"

section \<open>\<^verbatim>\<open>ChatService\<close>\<close>

text \<open>
  \<^verbatim>\<open>get_direct_conversation\<close>: the subquery keeps the conversation ids with exactly two
  participant rows whose user is one of the two; the loop over the direct conversations
  among them returns the first whose participant set is the pair.
\<close>

definition direct_subquery :: "store \<Rightarrow> int \<Rightarrow> int \<Rightarrow> int list" where
  "direct_subquery db user1_id user2_id =
     (let rows = filter (\<lambda>p. cvp_user_id p \<in> set [user1_id, user2_id])
                   (conversation_participants db)
      in filter (\<lambda>k. length (filter (\<lambda>p. cvp_conversation_id p = k) rows) = 2)
           (remdups (map cvp_conversation_id rows)))"

definition participant_ids :: "store \<Rightarrow> int \<Rightarrow> int set" where
  "participant_ids db conversation_id =
     set (map cvp_user_id
            (filter (\<lambda>p. cvp_conversation_id p = conversation_id)
               (conversation_participants db)))"

definition get_direct_conversation :: "store \<Rightarrow> int \<Rightarrow> int \<Rightarrow> conversation_row option" where
  "get_direct_conversation db user1_id user2_id =
     (let convs = filter (\<lambda>c. cv_id c \<in> set (direct_subquery db user1_id user2_id)
                              \<and> cv_type c = Direct)
                    (conversations db)
      in find (\<lambda>conv. participant_ids db (cv_id conv) = {user1_id, user2_id}) convs)"

text \<open>
  \<^verbatim>\<open>get_unread_count\<close>: messages LEFT OUTER JOIN message_status on the message id and the
  user; a message with no matching status row gives one joined row with a NULL status.
  The WHERE clause keeps a joined row, and \<^verbatim>\<open>count(Message.id)\<close> counts the rows kept.
\<close>

definition outerjoin_status ::
  "store \<Rightarrow> int \<Rightarrow> message_row \<Rightarrow> (message_row \<times> status_row option) list" where
  "outerjoin_status db uid m =
     (let matches = filter (\<lambda>s. ms_message_id s = msg_id m \<and> ms_user_id s = uid)
                      (message_status db)
      in if matches = [] then [(m, None)] else map (\<lambda>s. (m, Some s)) matches)"

definition unread_where :: "int \<Rightarrow> int \<Rightarrow> message_row \<times> status_row option \<Rightarrow> bool" where
  "unread_where conversation_id uid row =
     (case row of (m, st) \<Rightarrow>
        msg_conversation_id m = conversation_id
        \<and> msg_sender_id m \<noteq> uid
        \<and> msg_deleted_at m = None
        \<and> (case st of None \<Rightarrow> True | Some s \<Rightarrow> ms_status s \<noteq> Read))"

definition get_unread_count :: "store \<Rightarrow> int \<Rightarrow> int \<Rightarrow> nat" where
  "get_unread_count db conversation_id uid =
     length (filter (unread_where conversation_id uid)
               (concat (map (outerjoin_status db uid) (messages db))))"

text \<open>
  The unread count in the words of the specification: the messages of the conversation
  not sent by the user, not soft-deleted, whose status row for the user is absent or is
  not "read".
\<close>

definition status_row_of :: "store \<Rightarrow> int \<Rightarrow> int \<Rightarrow> status_row option" where
  "status_row_of db mid uid =
     find (\<lambda>s. ms_message_id s = mid \<and> ms_user_id s = uid) (message_status db)"

definition unread_spec :: "store \<Rightarrow> int \<Rightarrow> int \<Rightarrow> message_row \<Rightarrow> bool" where
  "unread_spec db conversation_id uid m =
     (msg_conversation_id m = conversation_id
      \<and> msg_sender_id m \<noteq> uid
      \<and> msg_deleted_at m = None
      \<and> (case status_row_of db (msg_id m) uid of
            None \<Rightarrow> True
          | Some s \<Rightarrow> ms_status s \<noteq> Read))"

definition unread_count_spec :: "store \<Rightarrow> int \<Rightarrow> int \<Rightarrow> nat" where
  "unread_count_spec db conversation_id uid =
     length (filter (unread_spec db conversation_id uid) (messages db))"

section \<open>\<^verbatim>\<open>MessageService\<close>\<close>

definition get_message :: "store \<Rightarrow> int \<Rightarrow> error + message_row option" where
  "get_message db message_id =
     scalar_one_or_none (filter (\<lambda>m. msg_id m = message_id) (messages db))"

text \<open>
  \<^verbatim>\<open>update_message\<close>: the commit inserts the version row and updates the message row in
  one transaction. The write to the Redis cache that follows touches no table and is
  not modelled.
\<close>

definition update_message ::
  "store \<Rightarrow> int \<Rightarrow> int \<Rightarrow> string \<Rightarrow> int \<Rightarrow> error + message_row option \<times> store" where
  "update_message db message_id uid content now =
     (case get_message db message_id of
        Inl e \<Rightarrow> Inl e
      | Inr None \<Rightarrow> Inr (None, db)
      | Inr (Some message) \<Rightarrow>
          if msg_sender_id message \<noteq> uid then Inr (None, db)
          else
            let version = \<lparr>mv_message_id = msg_id message, mv_version = msg_version message,
                           mv_content = msg_content message, mv_created_at = now\<rparr>;
                message' = message\<lparr>msg_content := content, msg_edited_at := Some now,
                                    msg_updated_at := Some now,
                                    msg_version := msg_version message + 1\<rparr>
            in (case insert_version db version of
                  Inl e \<Rightarrow> Inl e
                | Inr db1 \<Rightarrow>
                    Inr (Some message',
                         db1\<lparr>messages :=
                               map (\<lambda>m. if msg_id m = msg_id message then message' else m)
                                 (messages db1)\<rparr>)))"

definition status_key :: "int \<Rightarrow> int \<Rightarrow> status_row \<Rightarrow> bool" where
  "status_key message_id uid s = (ms_message_id s = message_id \<and> ms_user_id s = uid)"

definition set_status :: "store \<Rightarrow> int \<Rightarrow> int \<Rightarrow> delivery_status \<Rightarrow> int \<Rightarrow> store" where
  "set_status db message_id uid st now =
     db\<lparr>message_status :=
          map (\<lambda>s. if status_key message_id uid s
                    then s\<lparr>ms_status := st, ms_created_at := now\<rparr> else s)
            (message_status db)\<rparr>"

definition mark_as_delivered :: "store \<Rightarrow> int \<Rightarrow> int \<Rightarrow> int \<Rightarrow> error + bool \<times> store" where
  "mark_as_delivered db message_id uid now =
     (case scalar_one_or_none (filter (status_key message_id uid) (message_status db)) of
        Inl e \<Rightarrow> Inl e
      | Inr (Some status) \<Rightarrow>
          if ms_status status = Sent
          then Inr (True, set_status db message_id uid Delivered now)
          else Inr (True, db)
      | Inr None \<Rightarrow>
          (case insert_status db \<lparr>ms_message_id = message_id, ms_user_id = uid,
                                  ms_status = Delivered, ms_created_at = now\<rparr> of
             Inl e \<Rightarrow> Inl e
           | Inr db' \<Rightarrow> Inr (True, db')))"

definition mark_as_read :: "store \<Rightarrow> int \<Rightarrow> int \<Rightarrow> int \<Rightarrow> error + bool \<times> store" where
  "mark_as_read db message_id uid now =
     (case scalar_one_or_none (filter (\<lambda>m. msg_id m = message_id) (messages db)) of
        Inl e \<Rightarrow> Inl e
      | Inr None \<Rightarrow> Inr (False, db)
      | Inr (Some message) \<Rightarrow>
          if msg_sender_id message = uid then Inr (False, db)
          else
            (case scalar_one_or_none
                    (filter (status_key message_id uid) (message_status db)) of
               Inl e \<Rightarrow> Inl e
             | Inr (Some status) \<Rightarrow> Inr (True, set_status db message_id uid Read now)
             | Inr None \<Rightarrow>
                 (case insert_status db \<lparr>ms_message_id = message_id, ms_user_id = uid,
                                         ms_status = Read, ms_created_at = now\<rparr> of
                    Inl e \<Rightarrow> Inl e
                  | Inr db' \<Rightarrow> Inr (True, db'))))"

definition add_reaction ::
  "store \<Rightarrow> int \<Rightarrow> int \<Rightarrow> string \<Rightarrow> int \<Rightarrow> error + message_row option \<times> store" where
  "add_reaction db message_id uid emoji now =
     (case scalar_one_or_none
             (filter (\<lambda>r. mr_message_id r = message_id \<and> mr_user_id r = uid
                          \<and> mr_emoji r = emoji)
                (message_reactions db)) of
        Inl e \<Rightarrow> Inl e
      | Inr (Some _) \<Rightarrow>
          (case get_message db message_id of
             Inl e \<Rightarrow> Inl e
           | Inr m \<Rightarrow> Inr (m, db))
      | Inr None \<Rightarrow>
          (case insert_reaction db \<lparr>mr_message_id = message_id, mr_user_id = uid,
                                    mr_emoji = emoji, mr_created_at = now\<rparr> of
             Inl e \<Rightarrow> Inl e
           | Inr db' \<Rightarrow>
               (case get_message db' message_id of
                  Inl e \<Rightarrow> Inl e
                | Inr m \<Rightarrow> Inr (m, db'))))"

text \<open>The statuses stored for a message and a user, in table order.\<close>

definition statuses_of :: "store \<Rightarrow> int \<Rightarrow> int \<Rightarrow> delivery_status list" where
  "statuses_of db message_id uid =
     map ms_status (filter (status_key message_id uid) (message_status db))"

text \<open>The position of a status on the chain sent, delivered, read.\<close>

fun rank :: "delivery_status \<Rightarrow> nat" where
  "rank Sent = 0"
| "rank Delivered = 1"
| "rank Read = 2"

section \<open>Properties of the connection manager\<close>

subsection \<open>What the operations do to the dict\<close>

lemma connect_map_of:
  "connect broken r ws uid = Inr r' \<Longrightarrow>
   map_of r' = (map_of r)(uid \<mapsto> connections_of r uid @ [ws])"
  by (auto simp: connect_def connections_of_def Let_def update_conv'
           split: if_splits option.splits)

lemma disconnect_map_of:
  "disconnect r ws uid = Inr r' \<Longrightarrow>
   map_of r' = (case map_of r uid of
                  None \<Rightarrow> map_of r
                | Some cs \<Rightarrow> if remove1 ws cs = [] then (map_of r)(uid := None)
                             else (map_of r)(uid \<mapsto> remove1 ws cs))"
  by (auto simp: disconnect_def Let_def update_conv' delete_conv'
           split: if_splits option.splits)

lemma connect_nonempty:
  assumes "connect broken r ws uid = Inr r'"
    and "\<forall>u cs. map_of r u = Some cs \<longrightarrow> cs \<noteq> []"
  shows "\<forall>u cs. map_of r' u = Some cs \<longrightarrow> cs \<noteq> []"
  using assms(2) by (simp add: connect_map_of[OF assms(1)])

lemma disconnect_nonempty:
  assumes "disconnect r ws uid = Inr r'"
    and "\<forall>u cs. map_of r u = Some cs \<longrightarrow> cs \<noteq> []"
  shows "\<forall>u cs. map_of r' u = Some cs \<longrightarrow> cs \<noteq> []"
  using assms(2) by (auto simp: disconnect_map_of[OF assms(1)] split: option.splits if_splits)

lemma run_calls_nonempty:
  "run_calls broken r calls = Inr r' \<Longrightarrow>
   \<forall>u cs. map_of r u = Some cs \<longrightarrow> cs \<noteq> [] \<Longrightarrow>
   \<forall>u cs. map_of r' u = Some cs \<longrightarrow> cs \<noteq> []"
proof (induction calls arbitrary: r)
  case Nil
  then show ?case by simp
next
  case (Cons call calls)
  show ?case
  proof (cases call)
    case (Connect ws uid)
    with Cons.prems(1) obtain r1 where step: "connect broken r ws uid = Inr r1"
      and rest: "run_calls broken r1 calls = Inr r'"
      by (auto split: sum.splits)
    from Cons.IH[OF rest connect_nonempty[OF step Cons.prems(2)]] show ?thesis .
  next
    case (Disconnect ws uid)
    with Cons.prems(1) obtain r1 where step: "disconnect r ws uid = Inr r1"
      and rest: "run_calls broken r1 calls = Inr r'"
      by (auto split: sum.splits)
    from Cons.IH[OF rest disconnect_nonempty[OF step Cons.prems(2)]] show ?thesis .
  qed
qed

lemma disconnect_last:
  "map_of r uid = Some [ws] \<Longrightarrow> disconnect r ws uid = Inr (AList.delete uid r)"
  by (simp add: disconnect_def)

subsection \<open>What a delivery puts on the wire\<close>

lemma send_each_frames: "send_each broken e cs w = w @ frames broken e cs"
  by (induction cs arbitrary: w) (auto simp: frames_def send_json_def)

lemma send_to_user_frames:
  "send_to_user broken uid e (r, w) = Inr (r, w @ frames broken e (connections_of r uid))"
  by (simp add: send_to_user_def connections_of_def send_each_frames frames_def
           split: option.splits)

lemma send_to_participants_frames:
  "send_to_participants broken e ex ps (r, w) =
     Inr (r, w @ concat (map (\<lambda>p. frames broken e (connections_of r (cp_user_id p)))
                           (filter (\<lambda>p. Some (cp_user_id p) \<noteq> ex) ps)))"
  by (induction ps arbitrary: w) (simp_all add: send_to_user_frames)

lemma send_to_chat_frames:
  "send_to_chat broken chat e db ex (r, w) =
     Inr (r, w @ concat (map (\<lambda>p. frames broken e (connections_of r (cp_user_id p)))
                           (filter (\<lambda>p. Some (cp_user_id p) \<noteq> ex)
                              (filter (\<lambda>p. cp_chat_id p = chat) (chat_participants db)))))"
  by (simp add: send_to_chat_def send_to_participants_frames)

subsection \<open>A socket registered once belongs to one user\<close>

lemma connections_of_Cons:
  "connections_of ((k, cs) # r) u = (if u = k then cs else connections_of r u)"
  by (simp add: connections_of_def)

lemma connections_of_registered:
  "c \<in> set (connections_of r u) \<Longrightarrow> c \<in> set (concat (map snd r))"
  by (induction r) (auto simp: connections_of_def split: if_splits)

lemma one_owner_disjoint:
  "one_owner r \<Longrightarrow> c \<in> set (connections_of r u) \<Longrightarrow> c \<in> set (connections_of r v) \<Longrightarrow> u = v"
proof (induction r)
  case Nil
  then show ?case by (simp add: connections_of_def)
next
  case (Cons a r)
  obtain k cs where a: "a = (k, cs)" by (cases a)
  from Cons.prems(1) a have tl: "one_owner r"
    and apart: "set cs \<inter> set (concat (map snd r)) = {}"
    by (simp_all add: one_owner_def)
  show ?case
  proof (rule ccontr)
    assume ne: "u \<noteq> v"
    consider "u = k" "v \<noteq> k" | "u \<noteq> k" "v = k" | "u \<noteq> k" "v \<noteq> k"
      using ne by blast
    then show False
    proof cases
      case 1
      with Cons.prems a have "c \<in> set cs" "c \<in> set (connections_of r v)"
        by (simp_all add: connections_of_Cons)
      with apart connections_of_registered show False by blast
    next
      case 2
      with Cons.prems a have "c \<in> set cs" "c \<in> set (connections_of r u)"
        by (simp_all add: connections_of_Cons)
      with apart connections_of_registered show False by blast
    next
      case 3
      with Cons.prems a have "c \<in> set (connections_of r u)" "c \<in> set (connections_of r v)"
        by (simp_all add: connections_of_Cons)
      with Cons.IH tl ne show False by blast
    qed
  qed
qed

subsection \<open>Fan-out to a chat\<close>

text \<open>
  Claim C1. A fan-out of an event to a chat never raises and leaves the registry as it
  was. Every socket of every participant other than the excluded user is sent the event
  (and receives it unless its transport is broken); a frame goes only to a socket
  registered for such a participant; and, each socket being registered for one user, no
  socket of a user who has no participant row in the chat receives anything. The
  participant rows are read from the table passed to this very call.
\<close>

theorem send_to_chat_fanout:
  assumes "one_owner r"
  shows "\<exists>w'. send_to_chat broken chat e db ex (r, w) = Inr (r, w @ w')
          \<and> (\<forall>uid c. uid \<in> chat_participant_ids db chat \<and> Some uid \<noteq> ex
                      \<and> c \<in> set (connections_of r uid) \<and> c \<notin> set broken
                   \<longrightarrow> (c, e) \<in> set w')
          \<and> (\<forall>C c e'. C \<notin> chat_participant_ids db chat \<and> c \<in> set (connections_of r C)
                   \<longrightarrow> (c, e') \<notin> set w')
          \<and> (\<forall>c e'. (c, e') \<in> set w'
                   \<longrightarrow> e' = e \<and> (\<exists>uid \<in> chat_participant_ids db chat.
                                     Some uid \<noteq> ex \<and> c \<in> set (connections_of r uid)))"
proof -
  let ?w = "concat (map (\<lambda>p. frames broken e (connections_of r (cp_user_id p)))
                      (filter (\<lambda>p. Some (cp_user_id p) \<noteq> ex)
                         (filter (\<lambda>p. cp_chat_id p = chat) (chat_participants db))))"
  have run: "send_to_chat broken chat e db ex (r, w) = Inr (r, w @ ?w)"
    by (rule send_to_chat_frames)
  have mem: "\<And>c e'. (c, e') \<in> set ?w \<longleftrightarrow>
      e' = e \<and> c \<notin> set broken \<and> (\<exists>uid \<in> chat_participant_ids db chat.
                                     Some uid \<noteq> ex \<and> c \<in> set (connections_of r uid))"
    by (auto simp: frames_def chat_participant_ids_def)
  have sent: "\<forall>uid c. uid \<in> chat_participant_ids db chat \<and> Some uid \<noteq> ex
                      \<and> c \<in> set (connections_of r uid) \<and> c \<notin> set broken
                   \<longrightarrow> (c, e) \<in> set ?w"
    using mem by blast
  have outsider: "\<forall>C c e'. C \<notin> chat_participant_ids db chat \<and> c \<in> set (connections_of r C)
                   \<longrightarrow> (c, e') \<notin> set ?w"
    using mem one_owner_disjoint[OF assms] by blast
  have only: "\<forall>c e'. (c, e') \<in> set ?w
                   \<longrightarrow> e' = e \<and> (\<exists>uid \<in> chat_participant_ids db chat.
                                     Some uid \<noteq> ex \<and> c \<in> set (connections_of r uid))"
    using mem by blast
  from run sent outsider only show ?thesis by blast
qed

text \<open>
  An instance: users 1 and 2 are the participants of chat 7, user 3 is not, and user 1 is
  excluded. The two sockets of user 2 get the event; the socket of user 3 gets nothing.
\<close>

theorem send_to_chat_fanout_witness:
  "one_owner [(1, [10]), (2, [20, 21]), (3, [30])]
   \<and> send_to_chat [] 7 ''m''
        \<lparr>users = [], chats = [], chat_participants =
           [\<lparr>cp_id = 1, cp_chat_id = 7, cp_user_id = 1\<rparr>,
            \<lparr>cp_id = 2, cp_chat_id = 7, cp_user_id = 2\<rparr>,
            \<lparr>cp_id = 3, cp_chat_id = 8, cp_user_id = 3\<rparr>]\<rparr>
        (Some 1) ([(1, [10]), (2, [20, 21]), (3, [30])], [])
      = Inr ([(1, [10]), (2, [20, 21]), (3, [30])], [(20, ''m''), (21, ''m'')])
   \<and> 3 \<notin> chat_participant_ids
        \<lparr>users = [], chats = [], chat_participants =
           [\<lparr>cp_id = 1, cp_chat_id = 7, cp_user_id = 1\<rparr>,
            \<lparr>cp_id = 2, cp_chat_id = 7, cp_user_id = 2\<rparr>,
            \<lparr>cp_id = 3, cp_chat_id = 8, cp_user_id = 3\<rparr>]\<rparr> 7
   \<and> (30, ''m'') \<notin> set [(20, ''m''), (21 :: conn, ''m'')]"
proof -
  let ?r = "[(1 :: user_id, [10 :: conn]), (2, [20, 21]), (3, [30])]"
  let ?db = "\<lparr>users = [], chats = [], chat_participants =
           [\<lparr>cp_id = 1, cp_chat_id = 7, cp_user_id = 1\<rparr>,
            \<lparr>cp_id = 2, cp_chat_id = 7, cp_user_id = 2\<rparr>,
            \<lparr>cp_id = 3, cp_chat_id = 8, cp_user_id = 3\<rparr>]\<rparr>"
  have owner: "one_owner ?r" by (simp add: one_owner_def)
  have run: "send_to_chat [] 7 ''m'' ?db (Some 1) (?r, [])
               = Inr (?r, [(20, ''m''), (21, ''m'')])"
    by (simp add: send_to_chat_def send_to_user_def send_json_def)
  have out: "3 \<notin> chat_participant_ids ?db 7" by (simp add: chat_participant_ids_def)
  have conn: "30 \<in> set (connections_of ?r 3)" by (simp add: connections_of_def)
  from send_to_chat_fanout[OF owner, of "[]" 7 "''m''" ?db "Some 1" "[]"]
  obtain w' where w': "send_to_chat [] 7 ''m'' ?db (Some 1) (?r, []) = Inr (?r, [] @ w')"
    and none: "\<forall>C c e'. C \<notin> chat_participant_ids ?db 7 \<and> c \<in> set (connections_of ?r C)
                   \<longrightarrow> (c, e') \<notin> set w'"
    by blast
  from w' run have "w' = [(20, ''m''), (21, ''m'')]" by simp
  with none out conn have "(30, ''m'') \<notin> set [(20, ''m''), (21 :: conn, ''m'')]" by blast
  with owner run out show ?thesis by blast
qed

subsection \<open>Failing sends\<close>

text \<open>
  Claim C7, as stated, fails on the code: \<^verbatim>\<open>send_to_user\<close> catches the exception of a failing
  send with \<^verbatim>\<open>except: pass\<close> and removes nothing. With socket 10 broken, the send to it
  raises, socket 11 still gets the event, and socket 10 is still registered afterwards.
\<close>

theorem failed_send_stays_registered:
  "send_json [10] 10 ''ping'' [] = Inl TransportError
   \<and> send_to_user [10] 1 ''ping'' ([(1, [10, 11])], []) = Inr ([(1, [10, 11])], [(11, ''ping'')])
   \<and> 10 \<in> set (connections_of [(1, [10, 11])] 1)"
  by (simp add: send_json_def send_to_user_def connections_of_def)

text \<open>
  Claim C7, amended. A send that fails is swallowed: \<^verbatim>\<open>send_to_user\<close> never raises, returns
  the registry unchanged (the failing socket stays registered), and every socket of the
  user whose transport works receives the event; a fan-out to a chat likewise never
  raises, leaves the registry unchanged, and reaches every working socket of every
  participant other than the excluded one.
\<close>

theorem send_failure_swallowed:
  "\<exists>w'. send_to_user broken uid e (r, w) = Inr (r, w @ w')
        \<and> (\<forall>c \<in> set (connections_of r uid). c \<notin> set broken \<longrightarrow> (c, e) \<in> set w')
        \<and> (\<exists>w''. send_to_chat broken chat e db ex (r, w) = Inr (r, w @ w'')
              \<and> (\<forall>uid' c. uid' \<in> chat_participant_ids db chat \<and> Some uid' \<noteq> ex
                          \<and> c \<in> set (connections_of r uid') \<and> c \<notin> set broken
                       \<longrightarrow> (c, e) \<in> set w''))"
proof -
  have user: "\<forall>c \<in> set (connections_of r uid). c \<notin> set broken
                \<longrightarrow> (c, e) \<in> set (frames broken e (connections_of r uid))"
    by (simp add: frames_def)
  let ?w = "concat (map (\<lambda>p. frames broken e (connections_of r (cp_user_id p)))
                      (filter (\<lambda>p. Some (cp_user_id p) \<noteq> ex)
                         (filter (\<lambda>p. cp_chat_id p = chat) (chat_participants db))))"
  have chat: "\<forall>uid' c. uid' \<in> chat_participant_ids db chat \<and> Some uid' \<noteq> ex
                          \<and> c \<in> set (connections_of r uid') \<and> c \<notin> set broken
                       \<longrightarrow> (c, e) \<in> set ?w"
    by (auto simp: frames_def chat_participant_ids_def)
  from user chat send_to_user_frames[of broken uid e r w]
       send_to_chat_frames[of broken chat e db ex r w]
  show ?thesis by blast
qed

theorem send_failure_swallowed_witness:
  "11 \<in> set (connections_of [(1, [10, 11]), (2, [20])] 1) \<and> 11 \<notin> set [10 :: conn]
   \<and> send_to_user [10] 1 ''m'' ([(1, [10, 11]), (2, [20])], [])
       = Inr ([(1, [10, 11]), (2, [20])], [(11, ''m'')])
   \<and> (11, ''m'') \<in> set [(11 :: conn, ''m'')]"
proof -
  let ?r = "[(1 :: user_id, [10 :: conn, 11]), (2, [20])]"
  have conn: "11 \<in> set (connections_of ?r 1)" by (simp add: connections_of_def)
  have up: "11 \<notin> set [10 :: conn]" by simp
  have run: "send_to_user [10] 1 ''m'' (?r, []) = Inr (?r, [(11, ''m'')])"
    by (simp add: send_to_user_def send_json_def)
  from send_failure_swallowed[of "[10]" 1 "''m''" ?r "[]"]
  obtain w' where w': "send_to_user [10] 1 ''m'' (?r, []) = Inr (?r, [] @ w')"
    and all: "\<forall>c \<in> set (connections_of ?r 1). c \<notin> set [10] \<longrightarrow> (c, ''m'') \<in> set w'"
    by blast
  from w' run have "w' = [(11, ''m'')]" by simp
  with all conn up have "(11, ''m'') \<in> set [(11 :: conn, ''m'')]" by blast
  with conn up run show ?thesis by blast
qed

subsection \<open>Unregistering\<close>

lemma disconnect_absent_user: "map_of r uid = None \<Longrightarrow> disconnect r ws uid = Inr r"
  by (simp add: disconnect_def)

text \<open>
  Claim C6. \<^verbatim>\<open>disconnect\<close> is a no-op for a user who is not in the dict, but for a user who
  still has another socket registered \<^verbatim>\<open>list.remove\<close> raises \<^verbatim>\<open>ValueError\<close>: with socket 10
  registered for user 1, unregistering socket 11 for user 1 (never registered, or already
  unregistered) raises.
\<close>

theorem disconnect_unregistered_raises:
  "disconnect [(1, [10])] 11 1 = Inl ValueError"
  by (simp add: disconnect_def)

subsection \<open>The invariant of the registry\<close>

text \<open>
  Claim C10. After any sequence of calls of \<^verbatim>\<open>connect\<close> and \<^verbatim>\<open>disconnect\<close> that all
  returned, starting from the empty dict, every key of \<^verbatim>\<open>active_connections\<close> maps to a
  non-empty list; disconnecting the only socket of a user removes the key; and
  \<^verbatim>\<open>send_to_user\<close> to a user who is not in the dict sends nothing and does not raise.
\<close>

theorem registry_entries_nonempty:
  assumes "run_calls broken [] calls = Inr r"
  shows "(\<forall>uid cs. map_of r uid = Some cs \<longrightarrow> cs \<noteq> [])
       \<and> (\<forall>uid ws. map_of r uid = Some [ws]
             \<longrightarrow> (\<exists>r'. disconnect r ws uid = Inr r' \<and> uid \<notin> fst ` set r'))
       \<and> (\<forall>uid broken' (e :: 'e) w. uid \<notin> fst ` set r
             \<longrightarrow> send_to_user broken' uid e (r, w) = Inr (r, w))"
proof -
  have "\<forall>u cs. map_of [] u = Some cs \<longrightarrow> cs \<noteq> ([] :: conn list)" by simp
  from run_calls_nonempty[OF assms this]
  have inv: "\<forall>uid cs. map_of r uid = Some cs \<longrightarrow> cs \<noteq> []" .
  have last: "\<forall>uid ws. map_of r uid = Some [ws]
             \<longrightarrow> (\<exists>r'. disconnect r ws uid = Inr r' \<and> uid \<notin> fst ` set r')"
    by (auto simp: disconnect_last delete_notin_dom)
  have offline: "\<forall>uid broken' (e :: 'e) w. uid \<notin> fst ` set r
             \<longrightarrow> send_to_user broken' uid e (r, w) = Inr (r, w)"
  proof (intro allI impI)
    fix uid broken' and e :: 'e and w
    assume "uid \<notin> fst ` set r"
    then have "map_of r uid = None" by (simp add: map_of_eq_None_iff)
    then show "send_to_user broken' uid e (r, w) = Inr (r, w)"
      by (simp add: send_to_user_def)
  qed
  from inv last offline show ?thesis by blast
qed

theorem registry_entries_nonempty_witness:
  "run_calls [] [] [Connect 10 1, Connect 11 1, Disconnect 10 1, Connect 20 2, Disconnect 11 1]
     = Inr [(2, [20])]
   \<and> map_of [(2 :: user_id, [20 :: conn])] 2 = Some [20]
   \<and> [20 :: conn] \<noteq> []
   \<and> disconnect [(2, [20])] 20 2 = Inr []
   \<and> send_to_user [] 1 ''m'' ([(2, [20])], []) = Inr ([(2, [20])], [])"
proof -
  let ?calls = "[Connect 10 1, Connect 11 1, Disconnect 10 1, Connect 20 2, Disconnect 11 1]"
  have run: "run_calls [] [] ?calls = Inr [(2, [20])]"
    by (simp add: connect_def disconnect_def AList.delete_eq)
  have entry: "map_of [(2 :: user_id, [20 :: conn])] 2 = Some [20]" by simp
  from registry_entries_nonempty[OF run, where ?'e = string] entry
  have ne: "[20 :: conn] \<noteq> []" by blast
  have last: "disconnect [(2, [20])] 20 2 = Inr []"
    by (simp add: disconnect_def AList.delete_eq)
  have offline: "send_to_user [] 1 ''m'' ([(2, [20])], []) = Inr ([(2, [20])], [])"
    by (simp add: send_to_user_def)
  from run entry ne last offline show ?thesis by blast
qed

section \<open>Properties of the services\<close>

subsection \<open>Queries by a key\<close>

lemma distinct_key_filter:
  "distinct (map f xs) \<Longrightarrow> filter (\<lambda>x. f x = k) xs = [] \<or> (\<exists>x. filter (\<lambda>x. f x = k) xs = [x])"
proof (induction xs)
  case Nil
  then show ?case by simp
next
  case (Cons a xs)
  show ?case
  proof (cases "f a = k")
    case True
    with Cons.prems have "k \<notin> f ` set xs" by simp
    then have "\<forall>x \<in> set xs. f x \<noteq> k" by blast
    then have "filter (\<lambda>x. f x = k) xs = []" by (simp add: filter_empty_conv)
    with True show ?thesis by simp
  next
    case False
    with Cons show ?thesis by simp
  qed
qed

lemma status_matches:
  assumes "unique_message_user_status db"
  shows "filter (\<lambda>s. ms_message_id s = mid \<and> ms_user_id s = uid) (message_status db) = []
       \<or> (\<exists>s. filter (\<lambda>s. ms_message_id s = mid \<and> ms_user_id s = uid) (message_status db) = [s])"
proof -
  have eq: "(\<lambda>s. ms_message_id s = mid \<and> ms_user_id s = uid)
          = (\<lambda>s. (ms_message_id s, ms_user_id s) = (mid, uid))"
    by auto
  from assms distinct_key_filter[of "\<lambda>s. (ms_message_id s, ms_user_id s)" "message_status db" "(mid, uid)"]
  show ?thesis unfolding eq unique_message_user_status_def by blast
qed

lemma find_filter: "find P xs = (case filter P xs of [] \<Rightarrow> None | x # _ \<Rightarrow> Some x)"
  by (induction xs) auto

lemma find_Some_P: "find P xs = Some x \<Longrightarrow> P x \<and> x \<in> set xs"
  by (induction xs) (auto split: if_splits)

lemma scalar_one_or_none_Some: "scalar_one_or_none rows = Inr (Some x) \<longleftrightarrow> rows = [x]"
  by (auto simp: scalar_one_or_none_def split: list.splits)

lemma scalar_one_or_none_None: "scalar_one_or_none rows = Inr None \<longleftrightarrow> rows = []"
  by (auto simp: scalar_one_or_none_def split: list.splits)

lemma pkey_lookup:
  assumes "messages_pkey db" "m \<in> set (messages db)"
  shows "filter (\<lambda>x. msg_id x = msg_id m) (messages db) = [m]"
proof -
  from assms(2) have in_f: "m \<in> set (filter (\<lambda>x. msg_id x = msg_id m) (messages db))" by simp
  from assms(1) distinct_key_filter[of msg_id "messages db" "msg_id m"]
  consider "filter (\<lambda>x. msg_id x = msg_id m) (messages db) = []"
    | x where "filter (\<lambda>x. msg_id x = msg_id m) (messages db) = [x]"
    unfolding messages_pkey_def by blast
  then show ?thesis
  proof cases
    case 1
    with in_f show ?thesis by simp
  next
    case 2
    with in_f show ?thesis by simp
  qed
qed

subsection \<open>The unread count\<close>

lemma unread_row:
  assumes "unique_message_user_status db"
  shows "filter (unread_where conv uid) (outerjoin_status db uid m)
           = (if unread_spec db conv uid m then
                (case status_row_of db (msg_id m) uid of None \<Rightarrow> [(m, None)] | Some s \<Rightarrow> [(m, Some s)])
              else [])"
  using status_matches[OF assms, of "msg_id m" uid]
  by (auto simp: outerjoin_status_def unread_where_def unread_spec_def status_row_of_def
                 find_filter Let_def)

lemma unread_row_length:
  assumes "unique_message_user_status db"
  shows "length (filter (unread_where conv uid) (outerjoin_status db uid m))
           = (if unread_spec db conv uid m then 1 else 0)"
  by (simp add: unread_row[OF assms] split: option.splits)

lemma unread_rows_length:
  assumes "unique_message_user_status db"
  shows "length (filter (unread_where conv uid) (concat (map (outerjoin_status db uid) ms)))
           = length (filter (unread_spec db conv uid) ms)"
  by (induction ms) (simp_all add: unread_row_length[OF assms])

text \<open>
  Claim C5. On a store that satisfies the unique constraint \<^verbatim>\<open>unique_message_user_status\<close> of
  the schema, the count \<^verbatim>\<open>get_unread_count\<close> computes over the outer join is the number of
  messages of the conversation whose sender is not the user, that are not soft-deleted,
  and whose status row for the message and the user is absent or has a status other than
  "read".
\<close>

theorem unread_count_refines:
  assumes "unique_message_user_status db"
  shows "get_unread_count db conv uid = unread_count_spec db conv uid"
  by (simp add: get_unread_count_def unread_count_spec_def unread_rows_length[OF assms])

text \<open>
  Three messages from user 2 in conversation 7, of which user 1 has a "delivered" row for
  the first and no row for the others, and one message sent by user 1: the unread count of
  user 1 is 3.
\<close>

theorem unread_count_refines_witness:
  "unique_message_user_status
     \<lparr>store_users = [1, 2], conversations = [], conversation_participants = [],
      messages = [\<lparr>msg_id = 1, msg_conversation_id = 7, msg_sender_id = 2,
      msg_content = ''hi'', msg_created_at = 0, msg_updated_at = None,
      msg_deleted_at = None, msg_edited_at = None, msg_version = 1\<rparr>,
      \<lparr>msg_id = 2, msg_conversation_id = 7, msg_sender_id = 2,
      msg_content = ''hi'', msg_created_at = 0, msg_updated_at = None,
      msg_deleted_at = None, msg_edited_at = None, msg_version = 1\<rparr>,
      \<lparr>msg_id = 3, msg_conversation_id = 7, msg_sender_id = 2,
      msg_content = ''hi'', msg_created_at = 0, msg_updated_at = None,
      msg_deleted_at = None, msg_edited_at = None, msg_version = 1\<rparr>,
      \<lparr>msg_id = 4, msg_conversation_id = 7, msg_sender_id = 1,
      msg_content = ''hi'', msg_created_at = 0, msg_updated_at = None,
      msg_deleted_at = None, msg_edited_at = None, msg_version = 1\<rparr>],
      message_status = [\<lparr>ms_message_id = 1, ms_user_id = 1, ms_status = Delivered,
      ms_created_at = 0\<rparr>, \<lparr>ms_message_id = 4, ms_user_id = 1,
      ms_status = Sent, ms_created_at = 0\<rparr>], message_versions = [],
      message_reactions = []\<rparr>
   \<and> unread_count_spec
       \<lparr>store_users = [1, 2], conversations = [], conversation_participants = [],
      messages = [\<lparr>msg_id = 1, msg_conversation_id = 7, msg_sender_id = 2,
      msg_content = ''hi'', msg_created_at = 0, msg_updated_at = None,
      msg_deleted_at = None, msg_edited_at = None, msg_version = 1\<rparr>,
      \<lparr>msg_id = 2, msg_conversation_id = 7, msg_sender_id = 2,
      msg_content = ''hi'', msg_created_at = 0, msg_updated_at = None,
      msg_deleted_at = None, msg_edited_at = None, msg_version = 1\<rparr>,
      \<lparr>msg_id = 3, msg_conversation_id = 7, msg_sender_id = 2,
      msg_content = ''hi'', msg_created_at = 0, msg_updated_at = None,
      msg_deleted_at = None, msg_edited_at = None, msg_version = 1\<rparr>,
      \<lparr>msg_id = 4, msg_conversation_id = 7, msg_sender_id = 1,
      msg_content = ''hi'', msg_created_at = 0, msg_updated_at = None,
      msg_deleted_at = None, msg_edited_at = None, msg_version = 1\<rparr>],
      message_status = [\<lparr>ms_message_id = 1, ms_user_id = 1, ms_status = Delivered,
      ms_created_at = 0\<rparr>, \<lparr>ms_message_id = 4, ms_user_id = 1,
      ms_status = Sent, ms_created_at = 0\<rparr>], message_versions = [],
      message_reactions = []\<rparr> 7 1 = 3
   \<and> get_unread_count
       \<lparr>store_users = [1, 2], conversations = [], conversation_participants = [],
      messages = [\<lparr>msg_id = 1, msg_conversation_id = 7, msg_sender_id = 2,
      msg_content = ''hi'', msg_created_at = 0, msg_updated_at = None,
      msg_deleted_at = None, msg_edited_at = None, msg_version = 1\<rparr>,
      \<lparr>msg_id = 2, msg_conversation_id = 7, msg_sender_id = 2,
      msg_content = ''hi'', msg_created_at = 0, msg_updated_at = None,
      msg_deleted_at = None, msg_edited_at = None, msg_version = 1\<rparr>,
      \<lparr>msg_id = 3, msg_conversation_id = 7, msg_sender_id = 2,
      msg_content = ''hi'', msg_created_at = 0, msg_updated_at = None,
      msg_deleted_at = None, msg_edited_at = None, msg_version = 1\<rparr>,
      \<lparr>msg_id = 4, msg_conversation_id = 7, msg_sender_id = 1,
      msg_content = ''hi'', msg_created_at = 0, msg_updated_at = None,
      msg_deleted_at = None, msg_edited_at = None, msg_version = 1\<rparr>],
      message_status = [\<lparr>ms_message_id = 1, ms_user_id = 1, ms_status = Delivered,
      ms_created_at = 0\<rparr>, \<lparr>ms_message_id = 4, ms_user_id = 1,
      ms_status = Sent, ms_created_at = 0\<rparr>], message_versions = [],
      message_reactions = []\<rparr> 7 1 = 3"
proof -
  let ?db = "\<lparr>store_users = [1, 2], conversations = [], conversation_participants = [],
      messages = [\<lparr>msg_id = 1, msg_conversation_id = 7, msg_sender_id = 2,
      msg_content = ''hi'', msg_created_at = 0, msg_updated_at = None,
      msg_deleted_at = None, msg_edited_at = None, msg_version = 1\<rparr>,
      \<lparr>msg_id = 2, msg_conversation_id = 7, msg_sender_id = 2,
      msg_content = ''hi'', msg_created_at = 0, msg_updated_at = None,
      msg_deleted_at = None, msg_edited_at = None, msg_version = 1\<rparr>,
      \<lparr>msg_id = 3, msg_conversation_id = 7, msg_sender_id = 2,
      msg_content = ''hi'', msg_created_at = 0, msg_updated_at = None,
      msg_deleted_at = None, msg_edited_at = None, msg_version = 1\<rparr>,
      \<lparr>msg_id = 4, msg_conversation_id = 7, msg_sender_id = 1,
      msg_content = ''hi'', msg_created_at = 0, msg_updated_at = None,
      msg_deleted_at = None, msg_edited_at = None, msg_version = 1\<rparr>],
      message_status = [\<lparr>ms_message_id = 1, ms_user_id = 1, ms_status = Delivered,
      ms_created_at = 0\<rparr>, \<lparr>ms_message_id = 4, ms_user_id = 1,
      ms_status = Sent, ms_created_at = 0\<rparr>], message_versions = [],
      message_reactions = []\<rparr>"
  have uniq: "unique_message_user_status ?db"
    by (simp add: unique_message_user_status_def)
  have spec: "unread_count_spec ?db 7 1 = 3"
    by (simp add: unread_count_spec_def unread_spec_def status_row_of_def)
  from unread_count_refines[OF uniq, of 7 1] spec
  have "get_unread_count ?db 7 1 = 3" by simp
  with uniq spec show ?thesis by blast
qed

subsection \<open>Status transitions\<close>

lemma statuses_of_set_status:
  "statuses_of (set_status db mid uid st now) mid uid = map (\<lambda>_. st) (statuses_of db mid uid)"
proof -
  have "\<And>xs. map ms_status (filter (status_key mid uid)
            (map (\<lambda>s. if status_key mid uid s then s\<lparr>ms_status := st, ms_created_at := now\<rparr> else s) xs))
        = map (\<lambda>_. st) (map ms_status (filter (status_key mid uid) xs))"
    subgoal for xs by (induction xs) (auto simp: status_key_def)
    done
  then show ?thesis by (simp add: statuses_of_def set_status_def)
qed

lemma set_status_length:
  "length (message_status (set_status db mid uid st now)) = length (message_status db)
   \<and> messages (set_status db mid uid st now) = messages db
   \<and> map ms_message_id (message_status (set_status db mid uid st now))
       = map ms_message_id (message_status db)"
  by (simp add: set_status_def comp_def if_distrib cong: if_cong)

lemma insert_status_rows:
  "insert_status db row = Inr db' \<Longrightarrow>
     message_status db' = message_status db @ [row] \<and> messages db' = messages db
     \<and> message_exists db (ms_message_id row)"
  by (auto simp: insert_status_def split: if_splits)

lemma insert_reaction_rows:
  "insert_reaction db row = Inr db' \<Longrightarrow>
     message_reactions db' = message_reactions db @ [row] \<and> messages db' = messages db
     \<and> message_status db' = message_status db
     \<and> message_exists db (mr_message_id row)"
  by (auto simp: insert_reaction_def split: if_splits)

lemma mark_as_delivered_cases:
  assumes "mark_as_delivered db mid uid now = Inr (b, db')"
  shows "(\<exists>s. filter (status_key mid uid) (message_status db) = [s] \<and> ms_status s = Sent
              \<and> db' = set_status db mid uid Delivered now)
       \<or> (\<exists>s. filter (status_key mid uid) (message_status db) = [s] \<and> ms_status s \<noteq> Sent \<and> db' = db)
       \<or> (filter (status_key mid uid) (message_status db) = []
            \<and> insert_status db \<lparr>ms_message_id = mid, ms_user_id = uid,
                                  ms_status = Delivered, ms_created_at = now\<rparr> = Inr db')"
  using assms
  by (auto simp: mark_as_delivered_def scalar_one_or_none_Some scalar_one_or_none_None
           split: sum.splits option.splits if_splits)

lemma mark_as_read_cases:
  assumes "mark_as_read db mid uid now = Inr (b, db')"
  shows "(b = False \<and> db' = db)
       \<or> (b = True \<and> (\<exists>s. filter (status_key mid uid) (message_status db) = [s])
            \<and> db' = set_status db mid uid Read now)
       \<or> (b = True \<and> filter (status_key mid uid) (message_status db) = []
            \<and> insert_status db \<lparr>ms_message_id = mid, ms_user_id = uid,
                                  ms_status = Read, ms_created_at = now\<rparr> = Inr db')"
  using assms
  by (auto simp: mark_as_read_def scalar_one_or_none_Some scalar_one_or_none_None
           split: sum.splits option.splits if_splits)

text \<open>
  Claim C8. For a message \<open>m\<close> stored under the primary key of \<^verbatim>\<open>messages\<close>, \<^verbatim>\<open>mark_as_read\<close> by
  the sender of \<open>m\<close> returns \<^verbatim>\<open>False\<close> and leaves every table as it was: no status row is
  created or modified.
\<close>

theorem self_read_rejected:
  assumes "messages_pkey db" and "m \<in> set (messages db)" and "msg_sender_id m = uid"
  shows "mark_as_read db (msg_id m) uid now = Inr (False, db)"
  using assms(3)
  by (simp add: mark_as_read_def pkey_lookup[OF assms(1,2)] scalar_one_or_none_def)

text \<open>
  User 1 sent message 1 and has the initial "sent" row for it; the read mark by user 1 is
  rejected and the row is still the only one, with status "sent".
\<close>

theorem self_read_rejected_witness:
  "messages_pkey
     \<lparr>store_users = [1, 2], conversations = [], conversation_participants = [],
      messages = [\<lparr>msg_id = 1, msg_conversation_id = 7, msg_sender_id = 1,
      msg_content = ''hi'', msg_created_at = 0, msg_updated_at = None,
      msg_deleted_at = None, msg_edited_at = None, msg_version = 1\<rparr>],
      message_status = [\<lparr>ms_message_id = 1, ms_user_id = 1, ms_status = Sent,
      ms_created_at = 0\<rparr>], message_versions = [], message_reactions = []\<rparr>
   \<and> \<lparr>msg_id = 1, msg_conversation_id = 7, msg_sender_id = 1,
      msg_content = ''hi'', msg_created_at = 0, msg_updated_at = None,
      msg_deleted_at = None, msg_edited_at = None, msg_version = 1\<rparr>
       \<in> set (messages
         \<lparr>store_users = [1, 2], conversations = [], conversation_participants = [],
      messages = [\<lparr>msg_id = 1, msg_conversation_id = 7, msg_sender_id = 1,
      msg_content = ''hi'', msg_created_at = 0, msg_updated_at = None,
      msg_deleted_at = None, msg_edited_at = None, msg_version = 1\<rparr>],
      message_status = [\<lparr>ms_message_id = 1, ms_user_id = 1, ms_status = Sent,
      ms_created_at = 0\<rparr>], message_versions = [], message_reactions = []\<rparr>)
   \<and> mark_as_read
       \<lparr>store_users = [1, 2], conversations = [], conversation_participants = [],
      messages = [\<lparr>msg_id = 1, msg_conversation_id = 7, msg_sender_id = 1,
      msg_content = ''hi'', msg_created_at = 0, msg_updated_at = None,
      msg_deleted_at = None, msg_edited_at = None, msg_version = 1\<rparr>],
      message_status = [\<lparr>ms_message_id = 1, ms_user_id = 1, ms_status = Sent,
      ms_created_at = 0\<rparr>], message_versions = [], message_reactions = []\<rparr> 1 1 9
     = Inr (False,
       \<lparr>store_users = [1, 2], conversations = [], conversation_participants = [],
      messages = [\<lparr>msg_id = 1, msg_conversation_id = 7, msg_sender_id = 1,
      msg_content = ''hi'', msg_created_at = 0, msg_updated_at = None,
      msg_deleted_at = None, msg_edited_at = None, msg_version = 1\<rparr>],
      message_status = [\<lparr>ms_message_id = 1, ms_user_id = 1, ms_status = Sent,
      ms_created_at = 0\<rparr>], message_versions = [], message_reactions = []\<rparr>)
   \<and> statuses_of
       \<lparr>store_users = [1, 2], conversations = [], conversation_participants = [],
      messages = [\<lparr>msg_id = 1, msg_conversation_id = 7, msg_sender_id = 1,
      msg_content = ''hi'', msg_created_at = 0, msg_updated_at = None,
      msg_deleted_at = None, msg_edited_at = None, msg_version = 1\<rparr>],
      message_status = [\<lparr>ms_message_id = 1, ms_user_id = 1, ms_status = Sent,
      ms_created_at = 0\<rparr>], message_versions = [], message_reactions = []\<rparr> 1 1 = [Sent]"
proof -
  let ?db = "\<lparr>store_users = [1, 2], conversations = [], conversation_participants = [],
      messages = [\<lparr>msg_id = 1, msg_conversation_id = 7, msg_sender_id = 1,
      msg_content = ''hi'', msg_created_at = 0, msg_updated_at = None,
      msg_deleted_at = None, msg_edited_at = None, msg_version = 1\<rparr>],
      message_status = [\<lparr>ms_message_id = 1, ms_user_id = 1, ms_status = Sent,
      ms_created_at = 0\<rparr>], message_versions = [], message_reactions = []\<rparr>"
  let ?m = "\<lparr>msg_id = 1, msg_conversation_id = 7, msg_sender_id = 1,
      msg_content = ''hi'', msg_created_at = 0, msg_updated_at = None,
      msg_deleted_at = None, msg_edited_at = None, msg_version = 1\<rparr>"
  have pkey: "messages_pkey ?db" by (simp add: messages_pkey_def)
  have mem: "?m \<in> set (messages ?db)" by simp
  have own: "msg_sender_id ?m = 1" by simp
  from self_read_rejected[OF pkey mem own, of 9]
  have rej: "mark_as_read ?db 1 1 9 = Inr (False, ?db)" by simp
  have rows: "statuses_of ?db 1 1 = [Sent]" by (simp add: statuses_of_def status_key_def)
  from pkey mem rej rows show ?thesis by blast
qed

lemma mark_as_delivered_forward:
  assumes "mark_as_delivered db mid uid now = Inr (b, db')" and "statuses_of db mid uid = [s]"
  shows "\<exists>s'. statuses_of db' mid uid = [s'] \<and> rank s \<le> rank s'"
  using mark_as_delivered_cases[OF assms(1)] assms(2)
  by (auto simp: statuses_of_set_status) (auto simp: statuses_of_def)

lemma mark_as_read_forward:
  assumes "mark_as_read db mid uid now = Inr (b, db')" and "statuses_of db mid uid = [s]"
  shows "\<exists>s'. statuses_of db' mid uid = [s'] \<and> rank s \<le> rank s'"
  using mark_as_read_cases[OF assms(1)] assms(2)
  by (cases s) (auto simp: statuses_of_set_status, auto simp: statuses_of_def)

lemma mark_as_read_result:
  assumes "mark_as_read db mid uid now = Inr (True, db')"
  shows "statuses_of db' mid uid = [Read]"
  using mark_as_read_cases[OF assms]
proof (elim disjE conjE exE)
  fix s assume "filter (status_key mid uid) (message_status db) = [s]"
    and "db' = set_status db mid uid Read now"
  then show ?thesis by (simp add: statuses_of_set_status) (simp add: statuses_of_def)
next
  assume none: "filter (status_key mid uid) (message_status db) = []"
    and ins: "insert_status db \<lparr>ms_message_id = mid, ms_user_id = uid,
                                  ms_status = Read, ms_created_at = now\<rparr> = Inr db'"
  from insert_status_rows[OF ins] none show ?thesis
    by (simp add: statuses_of_def status_key_def)
qed simp

lemma mark_as_delivered_keeps:
  assumes "statuses_of db mid uid = [s]" and "s \<noteq> Sent"
  shows "mark_as_delivered db mid uid now = Inr (True, db)"
proof -
  from assms(1) obtain row where row: "filter (status_key mid uid) (message_status db) = [row]"
    and st: "ms_status row = s"
    by (auto simp: statuses_of_def)
  with assms(2) show ?thesis
    by (simp add: mark_as_delivered_def scalar_one_or_none_def)
qed

text \<open>
  Claim C2. For a message and a user with one stored status row, neither \<^verbatim>\<open>mark_as_delivered\<close>
  nor \<^verbatim>\<open>mark_as_read\<close> moves the status backwards on the chain sent, delivered, read;
  \<^verbatim>\<open>mark_as_delivered\<close> on a status that is already "delivered" or "read" changes nothing;
  and after a successful \<^verbatim>\<open>mark_as_read\<close> the stored status is "read" and every later
  \<^verbatim>\<open>mark_as_delivered\<close> leaves the store, and so the status "read", as it is.
\<close>

theorem status_forward_only:
  "(\<forall>s b db'. statuses_of db mid uid = [s]
        \<and> (mark_as_delivered db mid uid now = Inr (b, db')
             \<or> mark_as_read db mid uid now = Inr (b, db'))
      \<longrightarrow> (\<exists>s'. statuses_of db' mid uid = [s'] \<and> rank s \<le> rank s'))
   \<and> (\<forall>s. statuses_of db mid uid = [s] \<and> s \<noteq> Sent
      \<longrightarrow> mark_as_delivered db mid uid now = Inr (True, db))
   \<and> (\<forall>db1. mark_as_read db mid uid now = Inr (True, db1)
      \<longrightarrow> statuses_of db1 mid uid = [Read]
          \<and> (\<forall>later. mark_as_delivered db1 mid uid later = Inr (True, db1)))"
proof -
  have fwd: "\<forall>s b db'. statuses_of db mid uid = [s]
        \<and> (mark_as_delivered db mid uid now = Inr (b, db')
             \<or> mark_as_read db mid uid now = Inr (b, db'))
      \<longrightarrow> (\<exists>s'. statuses_of db' mid uid = [s'] \<and> rank s \<le> rank s')"
    using mark_as_delivered_forward mark_as_read_forward by blast
  have keep: "\<forall>s. statuses_of db mid uid = [s] \<and> s \<noteq> Sent
      \<longrightarrow> mark_as_delivered db mid uid now = Inr (True, db)"
    using mark_as_delivered_keeps by blast
  have read_then: "\<forall>db1. mark_as_read db mid uid now = Inr (True, db1)
      \<longrightarrow> statuses_of db1 mid uid = [Read]
          \<and> (\<forall>later. mark_as_delivered db1 mid uid later = Inr (True, db1))"
  proof (intro allI impI)
    fix db1 assume "mark_as_read db mid uid now = Inr (True, db1)"
    then have r: "statuses_of db1 mid uid = [Read]" by (rule mark_as_read_result)
    then have "\<forall>later. mark_as_delivered db1 mid uid later = Inr (True, db1)"
      using mark_as_delivered_keeps[of db1 mid uid Read] by simp
    with r show "statuses_of db1 mid uid = [Read]
          \<and> (\<forall>later. mark_as_delivered db1 mid uid later = Inr (True, db1))" by blast
  qed
  from fwd keep read_then show ?thesis by blast
qed

text \<open>
  User 2 has a "sent" row for message 1 of user 1: the read mark stores "read", and a
  delivered mark after it changes nothing.
\<close>

theorem status_forward_only_witness:
  "statuses_of
     \<lparr>store_users = [1, 2], conversations = [], conversation_participants = [],
      messages = [\<lparr>msg_id = 1, msg_conversation_id = 7, msg_sender_id = 1,
      msg_content = ''hi'', msg_created_at = 0, msg_updated_at = None,
      msg_deleted_at = None, msg_edited_at = None, msg_version = 1\<rparr>],
      message_status = [\<lparr>ms_message_id = 1, ms_user_id = 1, ms_status = Sent,
      ms_created_at = 0\<rparr>, \<lparr>ms_message_id = 1, ms_user_id = 2,
      ms_status = Sent, ms_created_at = 0\<rparr>], message_versions = [],
      message_reactions = []\<rparr> 1 2 = [Sent]
   \<and> mark_as_read
       \<lparr>store_users = [1, 2], conversations = [], conversation_participants = [],
      messages = [\<lparr>msg_id = 1, msg_conversation_id = 7, msg_sender_id = 1,
      msg_content = ''hi'', msg_created_at = 0, msg_updated_at = None,
      msg_deleted_at = None, msg_edited_at = None, msg_version = 1\<rparr>],
      message_status = [\<lparr>ms_message_id = 1, ms_user_id = 1, ms_status = Sent,
      ms_created_at = 0\<rparr>, \<lparr>ms_message_id = 1, ms_user_id = 2,
      ms_status = Sent, ms_created_at = 0\<rparr>], message_versions = [],
      message_reactions = []\<rparr> 1 2 5
     = Inr (True,
       \<lparr>store_users = [1, 2], conversations = [], conversation_participants = [],
      messages = [\<lparr>msg_id = 1, msg_conversation_id = 7, msg_sender_id = 1,
      msg_content = ''hi'', msg_created_at = 0, msg_updated_at = None,
      msg_deleted_at = None, msg_edited_at = None, msg_version = 1\<rparr>],
      message_status = [\<lparr>ms_message_id = 1, ms_user_id = 1, ms_status = Sent,
      ms_created_at = 0\<rparr>, \<lparr>ms_message_id = 1, ms_user_id = 2,
      ms_status = Read, ms_created_at = 5\<rparr>], message_versions = [],
      message_reactions = []\<rparr>)
   \<and> statuses_of
       \<lparr>store_users = [1, 2], conversations = [], conversation_participants = [],
      messages = [\<lparr>msg_id = 1, msg_conversation_id = 7, msg_sender_id = 1,
      msg_content = ''hi'', msg_created_at = 0, msg_updated_at = None,
      msg_deleted_at = None, msg_edited_at = None, msg_version = 1\<rparr>],
      message_status = [\<lparr>ms_message_id = 1, ms_user_id = 1, ms_status = Sent,
      ms_created_at = 0\<rparr>, \<lparr>ms_message_id = 1, ms_user_id = 2,
      ms_status = Read, ms_created_at = 5\<rparr>], message_versions = [],
      message_reactions = []\<rparr> 1 2 = [Read]
   \<and> mark_as_delivered
       \<lparr>store_users = [1, 2], conversations = [], conversation_participants = [],
      messages = [\<lparr>msg_id = 1, msg_conversation_id = 7, msg_sender_id = 1,
      msg_content = ''hi'', msg_created_at = 0, msg_updated_at = None,
      msg_deleted_at = None, msg_edited_at = None, msg_version = 1\<rparr>],
      message_status = [\<lparr>ms_message_id = 1, ms_user_id = 1, ms_status = Sent,
      ms_created_at = 0\<rparr>, \<lparr>ms_message_id = 1, ms_user_id = 2,
      ms_status = Read, ms_created_at = 5\<rparr>], message_versions = [],
      message_reactions = []\<rparr> 1 2 6
     = Inr (True,
       \<lparr>store_users = [1, 2], conversations = [], conversation_participants = [],
      messages = [\<lparr>msg_id = 1, msg_conversation_id = 7, msg_sender_id = 1,
      msg_content = ''hi'', msg_created_at = 0, msg_updated_at = None,
      msg_deleted_at = None, msg_edited_at = None, msg_version = 1\<rparr>],
      message_status = [\<lparr>ms_message_id = 1, ms_user_id = 1, ms_status = Sent,
      ms_created_at = 0\<rparr>, \<lparr>ms_message_id = 1, ms_user_id = 2,
      ms_status = Read, ms_created_at = 5\<rparr>], message_versions = [],
      message_reactions = []\<rparr>)
   \<and> rank Sent \<le> rank Read"
proof -
  let ?db = "\<lparr>store_users = [1, 2], conversations = [], conversation_participants = [],
      messages = [\<lparr>msg_id = 1, msg_conversation_id = 7, msg_sender_id = 1,
      msg_content = ''hi'', msg_created_at = 0, msg_updated_at = None,
      msg_deleted_at = None, msg_edited_at = None, msg_version = 1\<rparr>],
      message_status = [\<lparr>ms_message_id = 1, ms_user_id = 1, ms_status = Sent,
      ms_created_at = 0\<rparr>, \<lparr>ms_message_id = 1, ms_user_id = 2,
      ms_status = Sent, ms_created_at = 0\<rparr>], message_versions = [],
      message_reactions = []\<rparr>"
  let ?db1 = "\<lparr>store_users = [1, 2], conversations = [], conversation_participants = [],
      messages = [\<lparr>msg_id = 1, msg_conversation_id = 7, msg_sender_id = 1,
      msg_content = ''hi'', msg_created_at = 0, msg_updated_at = None,
      msg_deleted_at = None, msg_edited_at = None, msg_version = 1\<rparr>],
      message_status = [\<lparr>ms_message_id = 1, ms_user_id = 1, ms_status = Sent,
      ms_created_at = 0\<rparr>, \<lparr>ms_message_id = 1, ms_user_id = 2,
      ms_status = Read, ms_created_at = 5\<rparr>], message_versions = [],
      message_reactions = []\<rparr>"
  have before: "statuses_of ?db 1 2 = [Sent]"
    by (simp add: statuses_of_def status_key_def)
  have rd: "mark_as_read ?db 1 2 5 = Inr (True, ?db1)"
    by (simp add: Let_def mark_as_read_def scalar_one_or_none_def status_key_def set_status_def)
  from status_forward_only[of ?db 1 2 5] rd
  have after: "statuses_of ?db1 1 2 = [Read]"
    and again: "mark_as_delivered ?db1 1 2 6 = Inr (True, ?db1)"
    by blast+
  from status_forward_only[of ?db 1 2 5] before rd after
  have "rank Sent \<le> rank Read" by simp
  with before rd after again show ?thesis by blast
qed

subsection \<open>Edits\<close>

lemma insert_version_rows:
  "insert_version db row = Inr db' \<Longrightarrow>
     db' = db\<lparr>message_versions := message_versions db @ [row]\<rparr>"
  by (auto simp: insert_version_def split: if_splits)

lemma filter_replace:
  assumes "filter (\<lambda>x. msg_id x = k) xs = [m]" and "msg_id m' = k"
  shows "filter (\<lambda>x. msg_id x = k) (map (\<lambda>x. if msg_id x = k then m' else x) xs) = [m']"
  using assms
proof (induction xs)
  case Nil
  then show ?case by simp
next
  case (Cons a xs)
  show ?case
  proof (cases "msg_id a = k")
    case True
    with Cons.prems(1) have "filter (\<lambda>x. msg_id x = k) xs = []" by simp
    then have "\<forall>x \<in> set xs. msg_id x \<noteq> k" by (simp add: filter_empty_conv)
    then have "map (\<lambda>x. if msg_id x = k then m' else x) xs = xs" by (simp add: map_idI)
    with True \<open>filter (\<lambda>x. msg_id x = k) xs = []\<close> Cons.prems(2) show ?thesis by simp
  next
    case False
    with Cons show ?thesis by simp
  qed
qed

text \<open>
  Claim C3. When \<^verbatim>\<open>update_message\<close> succeeds on a stored message \<open>m\<close>, the caller is the sender
  of \<open>m\<close>, the version table has grown by exactly one row, which records the version and the
  content \<open>m\<close> had before the edit, and the stored message has the new content, the version
  of \<open>m\<close> plus one, and \<^verbatim>\<open>edited_at\<close> set.
\<close>

theorem edit_appends_version:
  assumes before: "get_message db mid = Inr (Some m)"
    and edit: "update_message db mid uid content now = Inr (Some m', db')"
  shows "message_versions db' =
           message_versions db @ [\<lparr>mv_message_id = mid, mv_version = msg_version m,
                                    mv_content = msg_content m, mv_created_at = now\<rparr>]
       \<and> get_message db' mid = Inr (Some m')
       \<and> msg_content m' = content
       \<and> msg_version m' = msg_version m + 1
       \<and> msg_edited_at m' = Some now
       \<and> msg_sender_id m = uid"
proof -
  from before have rows: "filter (\<lambda>x. msg_id x = mid) (messages db) = [m]"
    by (simp add: get_message_def scalar_one_or_none_Some)
  then have "m \<in> set (filter (\<lambda>x. msg_id x = mid) (messages db))" by simp
  then have mid: "msg_id m = mid" by simp
  let ?v = "\<lparr>mv_message_id = mid, mv_version = msg_version m,
             mv_content = msg_content m, mv_created_at = now\<rparr>"
  let ?m' = "m\<lparr>msg_content := content, msg_edited_at := Some now,
                msg_updated_at := Some now, msg_version := msg_version m + 1\<rparr>"
  from edit before mid have sender: "msg_sender_id m = uid"
    by (auto simp: update_message_def split: if_splits)
  from edit before mid sender obtain db1 where ins: "insert_version db ?v = Inr db1"
    and m': "m' = ?m'"
    and db': "db' = db1\<lparr>messages := map (\<lambda>x. if msg_id x = mid then ?m' else x) (messages db1)\<rparr>"
    by (auto simp: update_message_def Let_def split: sum.splits)
  from insert_version_rows[OF ins] have db1: "db1 = db\<lparr>message_versions := message_versions db @ [?v]\<rparr>" .
  have vers: "message_versions db' = message_versions db @ [?v]"
    by (simp add: db' db1)
  have "filter (\<lambda>x. msg_id x = mid) (messages db') = [?m']"
    using filter_replace[OF rows, of ?m'] mid by (simp add: db' db1)
  then have after: "get_message db' mid = Inr (Some m')"
    by (simp add: get_message_def scalar_one_or_none_def m')
  from vers after m' sender show ?thesis by simp
qed

text \<open>
  Editing message 1, "hi" at version 1, to "hello": one version row (version 1, "hi"), and
  the message at version 2 with content "hello".
\<close>

theorem edit_appends_version_witness:
  "get_message
     \<lparr>store_users = [1, 2], conversations = [], conversation_participants = [],
      messages = [\<lparr>msg_id = 1, msg_conversation_id = 7, msg_sender_id = 1,
      msg_content = ''hi'', msg_created_at = 0, msg_updated_at = None,
      msg_deleted_at = None, msg_edited_at = None, msg_version = 1\<rparr>],
      message_status = [\<lparr>ms_message_id = 1, ms_user_id = 1, ms_status = Sent,
      ms_created_at = 0\<rparr>], message_versions = [], message_reactions = []\<rparr> 1
     = Inr (Some \<lparr>msg_id = 1, msg_conversation_id = 7, msg_sender_id = 1,
      msg_content = ''hi'', msg_created_at = 0, msg_updated_at = None,
      msg_deleted_at = None, msg_edited_at = None, msg_version = 1\<rparr>)
   \<and> update_message
       \<lparr>store_users = [1, 2], conversations = [], conversation_participants = [],
      messages = [\<lparr>msg_id = 1, msg_conversation_id = 7, msg_sender_id = 1,
      msg_content = ''hi'', msg_created_at = 0, msg_updated_at = None,
      msg_deleted_at = None, msg_edited_at = None, msg_version = 1\<rparr>],
      message_status = [\<lparr>ms_message_id = 1, ms_user_id = 1, ms_status = Sent,
      ms_created_at = 0\<rparr>], message_versions = [], message_reactions = []\<rparr> 1 1 ''hello'' 5
     = Inr (Some \<lparr>msg_id = 1, msg_conversation_id = 7, msg_sender_id = 1,
      msg_content = ''hello'', msg_created_at = 0, msg_updated_at = Some 5,
      msg_deleted_at = None, msg_edited_at = Some 5, msg_version = 2\<rparr>,
       \<lparr>store_users = [1, 2], conversations = [], conversation_participants = [],
      messages = [\<lparr>msg_id = 1, msg_conversation_id = 7, msg_sender_id = 1,
      msg_content = ''hello'', msg_created_at = 0, msg_updated_at = Some 5,
      msg_deleted_at = None, msg_edited_at = Some 5, msg_version = 2\<rparr>],
      message_status = [\<lparr>ms_message_id = 1, ms_user_id = 1, ms_status = Sent,
      ms_created_at = 0\<rparr>], message_versions = [\<lparr>mv_message_id = 1,
      mv_version = 1, mv_content = ''hi'', mv_created_at = 5\<rparr>],
      message_reactions = []\<rparr>)
   \<and> message_versions
       \<lparr>store_users = [1, 2], conversations = [], conversation_participants = [],
      messages = [\<lparr>msg_id = 1, msg_conversation_id = 7, msg_sender_id = 1,
      msg_content = ''hello'', msg_created_at = 0, msg_updated_at = Some 5,
      msg_deleted_at = None, msg_edited_at = Some 5, msg_version = 2\<rparr>],
      message_status = [\<lparr>ms_message_id = 1, ms_user_id = 1, ms_status = Sent,
      ms_created_at = 0\<rparr>], message_versions = [\<lparr>mv_message_id = 1,
      mv_version = 1, mv_content = ''hi'', mv_created_at = 5\<rparr>],
      message_reactions = []\<rparr>
     = [\<lparr>mv_message_id = 1, mv_version = 1, mv_content = ''hi'',
      mv_created_at = 5\<rparr>]"
proof -
  let ?db = "\<lparr>store_users = [1, 2], conversations = [], conversation_participants = [],
      messages = [\<lparr>msg_id = 1, msg_conversation_id = 7, msg_sender_id = 1,
      msg_content = ''hi'', msg_created_at = 0, msg_updated_at = None,
      msg_deleted_at = None, msg_edited_at = None, msg_version = 1\<rparr>],
      message_status = [\<lparr>ms_message_id = 1, ms_user_id = 1, ms_status = Sent,
      ms_created_at = 0\<rparr>], message_versions = [], message_reactions = []\<rparr>"
  let ?db' = "\<lparr>store_users = [1, 2], conversations = [], conversation_participants = [],
      messages = [\<lparr>msg_id = 1, msg_conversation_id = 7, msg_sender_id = 1,
      msg_content = ''hello'', msg_created_at = 0, msg_updated_at = Some 5,
      msg_deleted_at = None, msg_edited_at = Some 5, msg_version = 2\<rparr>],
      message_status = [\<lparr>ms_message_id = 1, ms_user_id = 1, ms_status = Sent,
      ms_created_at = 0\<rparr>], message_versions = [\<lparr>mv_message_id = 1,
      mv_version = 1, mv_content = ''hi'', mv_created_at = 5\<rparr>],
      message_reactions = []\<rparr>"
  let ?m = "\<lparr>msg_id = 1, msg_conversation_id = 7, msg_sender_id = 1,
      msg_content = ''hi'', msg_created_at = 0, msg_updated_at = None,
      msg_deleted_at = None, msg_edited_at = None, msg_version = 1\<rparr>"
  let ?m' = "\<lparr>msg_id = 1, msg_conversation_id = 7, msg_sender_id = 1,
      msg_content = ''hello'', msg_created_at = 0, msg_updated_at = Some 5,
      msg_deleted_at = None, msg_edited_at = Some 5, msg_version = 2\<rparr>"
  have before: "get_message ?db 1 = Inr (Some ?m)"
    by (simp add: get_message_def scalar_one_or_none_def)
  have edit: "update_message ?db 1 1 ''hello'' 5 = Inr (Some ?m', ?db')"
    by (simp add: Let_def update_message_def get_message_def scalar_one_or_none_def
                  insert_version_def message_exists_def)
  from edit_appends_version[OF before edit]
  have "message_versions ?db' = [\<lparr>mv_message_id = 1, mv_version = 1, mv_content = ''hi'',
      mv_created_at = 5\<rparr>]"
    by simp
  with before edit show ?thesis by blast
qed

subsection \<open>Status and reaction rows reference a message\<close>

text \<open>
  Claim C9. \<^verbatim>\<open>mark_as_delivered\<close> and \<^verbatim>\<open>add_reaction\<close> do not look the message up before they
  insert; the foreign key \<^verbatim>\<open>message_id \<rightarrow> messages.id\<close> of the schema does it at commit. A call
  that returns leaves the table of messages as it was and either has appended one row for
  a message that exists, or has appended no row; for a message id with no message the
  INSERT raises \<^verbatim>\<open>IntegrityError\<close>.
\<close>

theorem status_reaction_rows_reference_message:
  "(\<forall>b db'. mark_as_delivered db mid uid now = Inr (b, db') \<longrightarrow>
       messages db' = messages db
       \<and> ((message_status db' = message_status db @ [\<lparr>ms_message_id = mid, ms_user_id = uid,
                                     ms_status = Delivered, ms_created_at = now\<rparr>]
            \<and> message_exists db mid)
          \<or> map ms_message_id (message_status db') = map ms_message_id (message_status db)))
   \<and> (\<forall>m db'. add_reaction db mid uid emoji now = Inr (m, db') \<longrightarrow>
       messages db' = messages db
       \<and> ((message_reactions db' = message_reactions db @ [\<lparr>mr_message_id = mid, mr_user_id = uid,
                                     mr_emoji = emoji, mr_created_at = now\<rparr>]
            \<and> message_exists db mid)
          \<or> message_reactions db' = message_reactions db))
   \<and> (\<not> message_exists db mid \<longrightarrow>
        insert_status db \<lparr>ms_message_id = mid, ms_user_id = uid,
                           ms_status = Delivered, ms_created_at = now\<rparr> = Inl IntegrityError
        \<and> insert_reaction db \<lparr>mr_message_id = mid, mr_user_id = uid,
                           mr_emoji = emoji, mr_created_at = now\<rparr> = Inl IntegrityError)"
proof -
  have delivered: "\<forall>b db'. mark_as_delivered db mid uid now = Inr (b, db') \<longrightarrow>
       messages db' = messages db
       \<and> ((message_status db' = message_status db @ [\<lparr>ms_message_id = mid, ms_user_id = uid,
                                     ms_status = Delivered, ms_created_at = now\<rparr>]
            \<and> message_exists db mid)
          \<or> map ms_message_id (message_status db') = map ms_message_id (message_status db))"
  proof (intro allI impI)
    fix b db' assume run: "mark_as_delivered db mid uid now = Inr (b, db')"
    from mark_as_delivered_cases[OF run]
    show "messages db' = messages db
       \<and> ((message_status db' = message_status db @ [\<lparr>ms_message_id = mid, ms_user_id = uid,
                                     ms_status = Delivered, ms_created_at = now\<rparr>]
            \<and> message_exists db mid)
          \<or> map ms_message_id (message_status db') = map ms_message_id (message_status db))"
    proof (elim disjE conjE exE)
      fix s assume "db' = set_status db mid uid Delivered now"
      then show ?thesis using set_status_length[of db mid uid Delivered now] by simp
    next
      fix s assume "db' = db"
      then show ?thesis by simp
    next
      assume "insert_status db \<lparr>ms_message_id = mid, ms_user_id = uid,
                 ms_status = Delivered, ms_created_at = now\<rparr> = Inr db'"
      from insert_status_rows[OF this] show ?thesis by simp
    qed
  qed
  have reaction: "\<forall>m db'. add_reaction db mid uid emoji now = Inr (m, db') \<longrightarrow>
       messages db' = messages db
       \<and> ((message_reactions db' = message_reactions db @ [\<lparr>mr_message_id = mid, mr_user_id = uid,
                                     mr_emoji = emoji, mr_created_at = now\<rparr>]
            \<and> message_exists db mid)
          \<or> message_reactions db' = message_reactions db)"
    by (auto simp: add_reaction_def split: sum.splits option.splits dest: insert_reaction_rows)
  have missing: "\<not> message_exists db mid \<longrightarrow>
        insert_status db \<lparr>ms_message_id = mid, ms_user_id = uid,
                           ms_status = Delivered, ms_created_at = now\<rparr> = Inl IntegrityError
        \<and> insert_reaction db \<lparr>mr_message_id = mid, mr_user_id = uid,
                           mr_emoji = emoji, mr_created_at = now\<rparr> = Inl IntegrityError"
    by (simp add: insert_status_def insert_reaction_def)
  from delivered reaction missing show ?thesis by blast
qed

text \<open>
  With message 1 stored and no message 99: the delivered mark and the reaction of user 2 on
  message 1 append their row; on message 99 both raise.
\<close>

theorem status_reaction_rows_reference_message_witness:
  "mark_as_delivered
     \<lparr>store_users = [1, 2], conversations = [], conversation_participants = [],
      messages = [\<lparr>msg_id = 1, msg_conversation_id = 7, msg_sender_id = 1,
      msg_content = ''hi'', msg_created_at = 0, msg_updated_at = None,
      msg_deleted_at = None, msg_edited_at = None, msg_version = 1\<rparr>],
      message_status = [\<lparr>ms_message_id = 1, ms_user_id = 1, ms_status = Sent,
      ms_created_at = 0\<rparr>], message_versions = [], message_reactions = []\<rparr> 1 2 5
     = Inr (True,
       \<lparr>store_users = [1, 2], conversations = [], conversation_participants = [],
      messages = [\<lparr>msg_id = 1, msg_conversation_id = 7, msg_sender_id = 1,
      msg_content = ''hi'', msg_created_at = 0, msg_updated_at = None,
      msg_deleted_at = None, msg_edited_at = None, msg_version = 1\<rparr>],
      message_status = [\<lparr>ms_message_id = 1, ms_user_id = 1, ms_status = Sent,
      ms_created_at = 0\<rparr>, \<lparr>ms_message_id = 1, ms_user_id = 2,
      ms_status = Delivered, ms_created_at = 5\<rparr>], message_versions = [],
      message_reactions = []\<rparr>)
   \<and> message_exists
       \<lparr>store_users = [1, 2], conversations = [], conversation_participants = [],
      messages = [\<lparr>msg_id = 1, msg_conversation_id = 7, msg_sender_id = 1,
      msg_content = ''hi'', msg_created_at = 0, msg_updated_at = None,
      msg_deleted_at = None, msg_edited_at = None, msg_version = 1\<rparr>],
      message_status = [\<lparr>ms_message_id = 1, ms_user_id = 1, ms_status = Sent,
      ms_created_at = 0\<rparr>], message_versions = [], message_reactions = []\<rparr> 1
   \<and> add_reaction
       \<lparr>store_users = [1, 2], conversations = [], conversation_participants = [],
      messages = [\<lparr>msg_id = 1, msg_conversation_id = 7, msg_sender_id = 1,
      msg_content = ''hi'', msg_created_at = 0, msg_updated_at = None,
      msg_deleted_at = None, msg_edited_at = None, msg_version = 1\<rparr>],
      message_status = [\<lparr>ms_message_id = 1, ms_user_id = 1, ms_status = Sent,
      ms_created_at = 0\<rparr>], message_versions = [], message_reactions = []\<rparr> 1 2 ''+'' 5
     = Inr (Some \<lparr>msg_id = 1, msg_conversation_id = 7, msg_sender_id = 1,
      msg_content = ''hi'', msg_created_at = 0, msg_updated_at = None,
      msg_deleted_at = None, msg_edited_at = None, msg_version = 1\<rparr>,
       \<lparr>store_users = [1, 2], conversations = [], conversation_participants = [],
      messages = [\<lparr>msg_id = 1, msg_conversation_id = 7, msg_sender_id = 1,
      msg_content = ''hi'', msg_created_at = 0, msg_updated_at = None,
      msg_deleted_at = None, msg_edited_at = None, msg_version = 1\<rparr>],
      message_status = [\<lparr>ms_message_id = 1, ms_user_id = 1, ms_status = Sent,
      ms_created_at = 0\<rparr>], message_versions = [],
      message_reactions = [\<lparr>mr_message_id = 1, mr_user_id = 2, mr_emoji = ''+'',
      mr_created_at = 5\<rparr>]\<rparr>)
   \<and> \<not> message_exists
       \<lparr>store_users = [1, 2], conversations = [], conversation_participants = [],
      messages = [\<lparr>msg_id = 1, msg_conversation_id = 7, msg_sender_id = 1,
      msg_content = ''hi'', msg_created_at = 0, msg_updated_at = None,
      msg_deleted_at = None, msg_edited_at = None, msg_version = 1\<rparr>],
      message_status = [\<lparr>ms_message_id = 1, ms_user_id = 1, ms_status = Sent,
      ms_created_at = 0\<rparr>], message_versions = [], message_reactions = []\<rparr> 99
   \<and> mark_as_delivered
       \<lparr>store_users = [1, 2], conversations = [], conversation_participants = [],
      messages = [\<lparr>msg_id = 1, msg_conversation_id = 7, msg_sender_id = 1,
      msg_content = ''hi'', msg_created_at = 0, msg_updated_at = None,
      msg_deleted_at = None, msg_edited_at = None, msg_version = 1\<rparr>],
      message_status = [\<lparr>ms_message_id = 1, ms_user_id = 1, ms_status = Sent,
      ms_created_at = 0\<rparr>], message_versions = [], message_reactions = []\<rparr> 99 2 5
     = Inl IntegrityError
   \<and> add_reaction
       \<lparr>store_users = [1, 2], conversations = [], conversation_participants = [],
      messages = [\<lparr>msg_id = 1, msg_conversation_id = 7, msg_sender_id = 1,
      msg_content = ''hi'', msg_created_at = 0, msg_updated_at = None,
      msg_deleted_at = None, msg_edited_at = None, msg_version = 1\<rparr>],
      message_status = [\<lparr>ms_message_id = 1, ms_user_id = 1, ms_status = Sent,
      ms_created_at = 0\<rparr>], message_versions = [], message_reactions = []\<rparr> 99 2 ''+'' 5
     = Inl IntegrityError"
proof -
  let ?db = "\<lparr>store_users = [1, 2], conversations = [], conversation_participants = [],
      messages = [\<lparr>msg_id = 1, msg_conversation_id = 7, msg_sender_id = 1,
      msg_content = ''hi'', msg_created_at = 0, msg_updated_at = None,
      msg_deleted_at = None, msg_edited_at = None, msg_version = 1\<rparr>],
      message_status = [\<lparr>ms_message_id = 1, ms_user_id = 1, ms_status = Sent,
      ms_created_at = 0\<rparr>], message_versions = [], message_reactions = []\<rparr>"
  have deliver: "mark_as_delivered ?db 1 2 5 = Inr (True,
       \<lparr>store_users = [1, 2], conversations = [], conversation_participants = [],
      messages = [\<lparr>msg_id = 1, msg_conversation_id = 7, msg_sender_id = 1,
      msg_content = ''hi'', msg_created_at = 0, msg_updated_at = None,
      msg_deleted_at = None, msg_edited_at = None, msg_version = 1\<rparr>],
      message_status = [\<lparr>ms_message_id = 1, ms_user_id = 1, ms_status = Sent,
      ms_created_at = 0\<rparr>, \<lparr>ms_message_id = 1, ms_user_id = 2,
      ms_status = Delivered, ms_created_at = 5\<rparr>], message_versions = [],
      message_reactions = []\<rparr>)"
    by (simp add: Let_def mark_as_delivered_def scalar_one_or_none_def status_key_def
                  insert_status_def message_exists_def user_exists_def)
  from status_reaction_rows_reference_message[of ?db 1 2 5 "''+''"] deliver
  have ex: "message_exists ?db 1" by auto
  have react: "add_reaction ?db 1 2 ''+'' 5 = Inr (Some \<lparr>msg_id = 1, msg_conversation_id = 7, msg_sender_id = 1,
      msg_content = ''hi'', msg_created_at = 0, msg_updated_at = None,
      msg_deleted_at = None, msg_edited_at = None, msg_version = 1\<rparr>,
       \<lparr>store_users = [1, 2], conversations = [], conversation_participants = [],
      messages = [\<lparr>msg_id = 1, msg_conversation_id = 7, msg_sender_id = 1,
      msg_content = ''hi'', msg_created_at = 0, msg_updated_at = None,
      msg_deleted_at = None, msg_edited_at = None, msg_version = 1\<rparr>],
      message_status = [\<lparr>ms_message_id = 1, ms_user_id = 1, ms_status = Sent,
      ms_created_at = 0\<rparr>], message_versions = [],
      message_reactions = [\<lparr>mr_message_id = 1, mr_user_id = 2, mr_emoji = ''+'',
      mr_created_at = 5\<rparr>]\<rparr>)"
    by (simp add: Let_def add_reaction_def scalar_one_or_none_def insert_reaction_def
                  message_exists_def user_exists_def get_message_def)
  have missing: "\<not> message_exists ?db 99" by (simp add: message_exists_def)
  have d99: "mark_as_delivered ?db 99 2 5 = Inl IntegrityError"
    by (simp add: Let_def mark_as_delivered_def scalar_one_or_none_def status_key_def
                  insert_status_def message_exists_def)
  have r99: "add_reaction ?db 99 2 ''+'' 5 = Inl IntegrityError"
    by (simp add: Let_def add_reaction_def scalar_one_or_none_def insert_reaction_def
                  message_exists_def)
  from deliver ex react missing d99 r99 show ?thesis by blast
qed

subsection \<open>Direct chats\<close>

text \<open>
  \<^verbatim>\<open>ChatService.get_direct_conversation\<close> checks, after its query, that the participant set of
  the conversation it returns is the pair.
\<close>

lemma get_direct_conversation_exact:
  assumes "get_direct_conversation db user1_id user2_id = Some conv"
  shows "participant_ids db (cv_id conv) = {user1_id, user2_id} \<and> cv_type conv = Direct
         \<and> conv \<in> set (conversations db)"
  using find_Some_P[OF assms[unfolded get_direct_conversation_def Let_def]] by simp

text \<open>
  A call of the route repeated on the database the first call left returns the same chat
  and writes nothing, when every participant row of the database refers to a chat of the
  table (the foreign key of \<^verbatim>\<open>models.py\<close>): the chat the first call created has a fresh key
  and exactly the two new participant rows.
\<close>

lemma fold_max_ge: "a \<le> fold max ids (a :: int)"
  by (induction ids arbitrary: a) (auto intro: order_trans[OF max.cobounded2])

lemma fold_max_upper: "x \<in> set ids \<Longrightarrow> x \<le> fold max ids (a :: int)"
proof (induction ids arbitrary: a)
  case Nil
  then show ?case by simp
next
  case (Cons y ys)
  show ?case
  proof (cases "x = y")
    case True
    have "y \<le> max y a" by simp
    also have "\<dots> \<le> fold max ys (max y a)" by (rule fold_max_ge)
    finally show ?thesis using True by simp
  next
    case False
    with Cons show ?thesis by simp
  qed
qed

lemma next_id_fresh: "next_id ids \<notin> set ids"
proof
  assume "next_id ids \<in> set ids"
  from fold_max_upper[OF this, of 0] show False by (simp add: next_id_def)
qed

lemma first_None: "first rows = None \<longleftrightarrow> rows = []"
  by (simp add: first_def split: list.splits)

lemma create_or_get_direct_chat_again:
  assumes fk: "set (map cp_chat_id (chat_participants db)) \<subseteq> set (map c_id (chats db))"
    and run: "create_or_get_direct_chat db contact_id current_user now = Inr (chat, db')"
  shows "create_or_get_direct_chat db' contact_id current_user later = Inr (chat, db')"
proof (cases "first (direct_chat_query db (u_id current_user) contact_id)")
  case (Some existing)
  with run show ?thesis by (simp add: create_or_get_direct_chat_def)
next
  case None
  then have empty: "direct_chat_query db (u_id current_user) contact_id = []"
    by (simp add: first_None)
  let ?k = "next_id (map c_id (chats db))"
  obtain contact_user :: user_row where
    chat: "chat = \<lparr>c_id = ?k, c_name = ''Chat: '' @ u_username current_user @ '' & ''
                                 @ u_username contact_user, c_created_at = now\<rparr>"
    and db': "db' = db\<lparr>chats := chats db @ [chat],
                       chat_participants := add_participants ?k [u_id current_user, contact_id]
                             (chat_participants db)\<rparr>"
  proof (cases "first (filter (\<lambda>u. u_id u = contact_id) (users db))")
    case absent: None
    from run show ?thesis
      unfolding create_or_get_direct_chat_def None absent by simp
  next
    case (Some contact_user)
    from run have "chat = \<lparr>c_id = ?k, c_name = ''Chat: '' @ u_username current_user @ '' & ''
                                 @ u_username contact_user, c_created_at = now\<rparr>
      \<and> db' = db\<lparr>chats := chats db @ [chat],
                       chat_participants := add_participants ?k [u_id current_user, contact_id]
                             (chat_participants db)\<rparr>"
      unfolding create_or_get_direct_chat_def None Some Let_def by auto
    then show ?thesis using that by blast
  qed
  have fresh: "?k \<notin> set (map c_id (chats db))" by (rule next_id_fresh)
  with fk have "?k \<notin> set (map cp_chat_id (chat_participants db))" by blast
  then have nopart: "\<forall>p \<in> set (chat_participants db). cp_chat_id p \<noteq> ?k"
    by (simp add: image_iff) metis
  then have none_old: "filter (\<lambda>p. cp_chat_id p = ?k \<and> cp_user_id p \<in> set [u_id current_user, contact_id])
                     (chat_participants db) = []"
    by (simp add: filter_empty_conv)
  from fresh have old: "\<forall>c \<in> set (chats db). c_id c \<noteq> ?k"
    by (simp add: image_iff) metis
  have old_same: "filter (\<lambda>c. length (filter (\<lambda>p. cp_chat_id p = c_id c
                                     \<and> cp_user_id p \<in> set [u_id current_user, contact_id])
                             (chat_participants db')) = 2) (chats db)
               = direct_chat_query db (u_id current_user) contact_id"
    unfolding direct_chat_query_def
    by (rule filter_cong) (use old in \<open>auto simp: db'\<close>)
  have "direct_chat_query db' (u_id current_user) contact_id = [chat]"
    using none_old old_same empty
    by (simp add: direct_chat_query_def db' chat)
  then show ?thesis by (simp add: create_or_get_direct_chat_def first_def)
qed

text \<open>
  Claim C4. The route \<^verbatim>\<open>create_or_get_direct_chat\<close> of \<^verbatim>\<open>main.py\<close> has the query and not the
  check: a chat with exactly two participant rows among the caller and the contact
  matches, whoever else is in it. With users 1, 2 and 3 in chat 1, the direct chat of
  user 1 with user 2 is looked up: the route returns chat 1, whose participant set contains
  user 3, and creates nothing.
\<close>

theorem direct_lookup_returns_group_chat:
  "create_or_get_direct_chat
     \<lparr>users = [\<lparr>u_id = 1, u_username = ''ann''\<rparr>, \<lparr>u_id = 2, u_username = ''bob''\<rparr>,
               \<lparr>u_id = 3, u_username = ''cat''\<rparr>],
      chats = [\<lparr>c_id = 1, c_name = ''team'', c_created_at = 0\<rparr>],
      chat_participants = [\<lparr>cp_id = 1, cp_chat_id = 1, cp_user_id = 1\<rparr>,
                           \<lparr>cp_id = 2, cp_chat_id = 1, cp_user_id = 2\<rparr>,
                           \<lparr>cp_id = 3, cp_chat_id = 1, cp_user_id = 3\<rparr>]\<rparr>
     2 \<lparr>u_id = 1, u_username = ''ann''\<rparr> 5
   = Inr (\<lparr>c_id = 1, c_name = ''team'', c_created_at = 0\<rparr>,
          \<lparr>users = [\<lparr>u_id = 1, u_username = ''ann''\<rparr>, \<lparr>u_id = 2, u_username = ''bob''\<rparr>,
                    \<lparr>u_id = 3, u_username = ''cat''\<rparr>],
           chats = [\<lparr>c_id = 1, c_name = ''team'', c_created_at = 0\<rparr>],
           chat_participants = [\<lparr>cp_id = 1, cp_chat_id = 1, cp_user_id = 1\<rparr>,
                                \<lparr>cp_id = 2, cp_chat_id = 1, cp_user_id = 2\<rparr>,
                                \<lparr>cp_id = 3, cp_chat_id = 1, cp_user_id = 3\<rparr>]\<rparr>)
   \<and> 3 \<in> chat_participant_ids
       \<lparr>users = [\<lparr>u_id = 1, u_username = ''ann''\<rparr>, \<lparr>u_id = 2, u_username = ''bob''\<rparr>,
                 \<lparr>u_id = 3, u_username = ''cat''\<rparr>],
        chats = [\<lparr>c_id = 1, c_name = ''team'', c_created_at = 0\<rparr>],
        chat_participants = [\<lparr>cp_id = 1, cp_chat_id = 1, cp_user_id = 1\<rparr>,
                             \<lparr>cp_id = 2, cp_chat_id = 1, cp_user_id = 2\<rparr>,
                             \<lparr>cp_id = 3, cp_chat_id = 1, cp_user_id = 3\<rparr>]\<rparr> 1
   \<and> (3 :: int) \<notin> {1, 2}"
  by (simp add: create_or_get_direct_chat_def direct_chat_query_def first_def
                chat_participant_ids_def)

end
